theory Spec2Isabelle
  imports Main "HOL-Library.Word" "HOL-Library.Sublist"
begin

section \<open>The intermediate representation built by the compiler\<close>

text \<open>
  \<^verbatim>\<open>BrainfuckCompiler\<close> drives an LLVM \<^verbatim>\<open>IRBuilder\<close>. The part of the LLVM
  instruction set that \<^verbatim>\<open>src/BrainfuckCompiler.cpp\<close> creates is modelled as a
  datatype. Every instruction records the arguments in the order and with the
  values the source passes them, including the type arguments and the value names.

  A \<^verbatim>\<open>Value*\<close> is a constant or the result of an instruction; it has a type,
  which the builder fixes when it creates the value, and the name the source gives
  it (LLVM makes repeated names unique by a numeric suffix; every use in the
  source refers to the most recent definition of the name, so looking a name up in
  a register file agrees with it). Pointers are opaque: there is one pointer type.
  A \<^verbatim>\<open>BasicBlock*\<close> is the index of the block in the store of all blocks created
  so far. A \<^verbatim>\<open>Function*\<close> is a declaration: a name, a result type and the
  parameter types.
\<close>

datatype ty = VoidTy | Int1Ty | Int8Ty | Int32Ty | Int64Ty | PtrTy | ArrayTy ty nat

text \<open>\<^verbatim>\<open>ConstantInt::get(type, n)\<close> takes an unsigned 64-bit number; the bits that
  do not fit the type are dropped when the constant is read.\<close>

datatype operand = ConstantInt ty int | Reg ty string

fun operand_ty :: "operand \<Rightarrow> ty" where
  "operand_ty (ConstantInt t n) = t"
| "operand_ty (Reg t r) = t"

datatype func = Func (fn_name: string) (fn_ret: ty) (fn_params: "ty list")

datatype instr =
    Alloca ty string
  | BitCast operand ty string
  | GetElementPtr bool ty operand "operand list" string
  | Load ty operand string
  | Store operand operand
  | Add operand operand string bool bool
  | Sub operand operand string bool bool
  | ZExt operand ty string
  | Trunc operand ty string
  | ICmpEQ operand operand string
  | Call func "operand list" string
  | Br nat
  | CondBr operand nat nat
  | Ret operand

text \<open>Block names: \<^verbatim>\<open>"entry"\<close>, and \<^verbatim>\<open>"loop_header_" + std::to_string(ip)\<close>,
  \<^verbatim>\<open>"loop_body_" + ...\<close>, \<^verbatim>\<open>"loop_end_" + ...\<close>.\<close>

datatype block_name = entry | loop_header nat | loop_body nat | loop_end nat

record basic_block =
  bb_name :: block_name
  bb_parent :: "nat option"
  bb_instrs :: "instr list"

text \<open>The messages handed to \<^verbatim>\<open>reportError\<close>, which writes them to the standard
  error stream. The message of \<^verbatim>\<open>checkBrackets\<close> for a surplus \<^verbatim>\<open>]\<close> has no
  position in it; the one of \<^verbatim>\<open>handleLoopEnd\<close> ends with the position.\<close>

datatype message =
    ExtraRightBracket
  | BracketsDoNotMatch
  | ExtraRightBracketAt nat
  | GeneratedIRInvalid

section \<open>The compiler object\<close>

record compiler =
  m_memorySize :: nat
  m_enableOptimization :: bool
  m_enableDebugInfo :: bool
  m_statistics :: "char \<rightharpoonup> nat"
  m_functions :: "func list"
  m_blocks :: "basic_block list"
  m_insertPoint :: "nat option"
  m_mainFunction :: "nat option"
  m_diBuilder :: bool
  m_loopStartBlocks :: "nat list"
  m_loopEndBlocks :: "nat list"
  m_currentIP :: nat
  m_stderr :: "message list"

text \<open>
  \<^verbatim>\<open>m_functions\<close> are the functions of \<^verbatim>\<open>m_module\<close> in creation order,
  \<^verbatim>\<open>m_blocks\<close> the basic blocks of \<^verbatim>\<open>m_context\<close>, \<^verbatim>\<open>m_insertPoint\<close> the block
  \<^verbatim>\<open>m_builder\<close> appends to. The two loop stacks have their top at the head of
  the list. \<^verbatim>\<open>m_memoryArray\<close>, \<^verbatim>\<open>m_dataPtr\<close>, \<^verbatim>\<open>m_putcharFunc\<close> and
  \<^verbatim>\<open>m_getcharFunc\<close> are assigned once, in \<^verbatim>\<open>allocateMemory\<close> and
  \<^verbatim>\<open>setupRuntimeFunctions\<close>, before any private member that reads them can run;
  they are the constants below: the two values that \<^verbatim>\<open>CreateAlloca\<close> returns
  there, and the two declarations that \<^verbatim>\<open>Function::Create\<close> returns.
\<close>

definition m_memoryArray :: operand where
  "m_memoryArray = Reg PtrTy ''memory''"

definition m_dataPtr :: operand where
  "m_dataPtr = Reg PtrTy ''dataptr''"

definition m_putcharFunc :: func where
  "m_putcharFunc = Func ''putchar'' Int32Ty [Int32Ty]"

definition m_getcharFunc :: func where
  "m_getcharFunc = Func ''getchar'' Int32Ty []"

text \<open>The constructor: \<^verbatim>\<open>BrainfuckCompiler(size_t memorySize)\<close> followed by
  \<^verbatim>\<open>initializeLLVM\<close>, which creates an empty context, module and builder.\<close>

definition BrainfuckCompiler :: "nat \<Rightarrow> compiler" where
  "BrainfuckCompiler memorySize =
     \<lparr> m_memorySize = memorySize, m_enableOptimization = True, m_enableDebugInfo = False,
       m_statistics = Map.empty, m_functions = [], m_blocks = [], m_insertPoint = None,
       m_mainFunction = None, m_diBuilder = False, m_loopStartBlocks = [],
       m_loopEndBlocks = [], m_currentIP = 0, m_stderr = [] \<rparr>"

definition reportError :: "message \<Rightarrow> compiler \<Rightarrow> compiler" where
  "reportError msg st = st\<lparr>m_stderr := m_stderr st @ [msg]\<rparr>"

subsection \<open>The builder\<close>

text \<open>An instruction created through the builder is appended to the insertion
  block; a builder with no insertion block creates a detached instruction.\<close>

definition Insert :: "instr \<Rightarrow> compiler \<Rightarrow> compiler" where
  "Insert i st =
     (case m_insertPoint st of
        None \<Rightarrow> st
      | Some b \<Rightarrow>
          st\<lparr>m_blocks := (m_blocks st)
                [b := (m_blocks st ! b)\<lparr>bb_instrs := bb_instrs (m_blocks st ! b) @ [i]\<rparr>]\<rparr>)"

definition emit :: "instr list \<Rightarrow> compiler \<Rightarrow> compiler" where
  "emit is st = fold Insert is st"

definition BasicBlock_Create :: "block_name \<Rightarrow> nat option \<Rightarrow> compiler \<Rightarrow> nat \<times> compiler" where
  "BasicBlock_Create name parent st =
     (length (m_blocks st),
      st\<lparr>m_blocks := m_blocks st @ [\<lparr>bb_name = name, bb_parent = parent, bb_instrs = []\<rparr>]\<rparr>)"

definition Function_Create :: "func \<Rightarrow> compiler \<Rightarrow> nat \<times> compiler" where
  "Function_Create f st =
     (length (m_functions st), st\<lparr>m_functions := m_functions st @ [f]\<rparr>)"

definition SetInsertPoint :: "nat \<Rightarrow> compiler \<Rightarrow> compiler" where
  "SetInsertPoint b st = st\<lparr>m_insertPoint := Some b\<rparr>"

text \<open>
  Each \<^verbatim>\<open>Create...\<close> member of the builder inserts one instruction and returns the
  value it defines. The type of that value is the one the builder gives it: the
  type argument for a load and for a conversion, the pointer type for an
  \<^verbatim>\<open>alloca\<close>, the type of the left operand for an addition or subtraction,
  \<^verbatim>\<open>i1\<close> for a comparison, the result type of the callee for a call, and for a
  \<^verbatim>\<open>getelementptr\<close> the type of its base operand. The builder does not check
  the operands (a build of LLVM with assertions aborts on some of the calls below;
  a release build creates the instruction); checking is left to the verifier. It
  folds an operation on constants into a constant, which none of the calls of the
  source is; and a conversion to the type the value already has returns the value
  itself.
\<close>

definition CreateAlloca :: "ty \<Rightarrow> string \<Rightarrow> compiler \<Rightarrow> operand \<times> compiler" where
  "CreateAlloca t name st = (Reg PtrTy name, Insert (Alloca t name) st)"

definition CreateBitCast :: "operand \<Rightarrow> ty \<Rightarrow> string \<Rightarrow> compiler \<Rightarrow> operand \<times> compiler" where
  "CreateBitCast v t name st =
     (if operand_ty v = t then (v, st) else (Reg t name, Insert (BitCast v t name) st))"

definition CreateLoad :: "ty \<Rightarrow> operand \<Rightarrow> string \<Rightarrow> compiler \<Rightarrow> operand \<times> compiler" where
  "CreateLoad t p name st = (Reg t name, Insert (Load t p name) st)"

definition CreateStore :: "operand \<Rightarrow> operand \<Rightarrow> compiler \<Rightarrow> compiler" where
  "CreateStore v p st = Insert (Store v p) st"

text \<open>\<^verbatim>\<open>CreateConstGEP1_32(type, pointer, unsigned index, name)\<close>: the index is
  converted to \<^verbatim>\<open>unsigned\<close> and becomes a 32-bit constant.\<close>

definition CreateConstGEP1_32 ::
  "ty \<Rightarrow> operand \<Rightarrow> int \<Rightarrow> string \<Rightarrow> compiler \<Rightarrow> operand \<times> compiler" where
  "CreateConstGEP1_32 t p idx0 name st =
     (Reg (operand_ty p) name,
      Insert (GetElementPtr False t p [ConstantInt Int32Ty (idx0 mod 2 ^ 32)] name) st)"

definition CreateInBoundsGEP ::
  "ty \<Rightarrow> operand \<Rightarrow> operand list \<Rightarrow> string \<Rightarrow> compiler \<Rightarrow> operand \<times> compiler" where
  "CreateInBoundsGEP t p idxs name st =
     (Reg (operand_ty p) name, Insert (GetElementPtr True t p idxs name) st)"

text \<open>\<^verbatim>\<open>CreateAdd(lhs, rhs, name, HasNUW, HasNSW)\<close>, and \<^verbatim>\<open>CreateSub\<close> alike.\<close>

definition CreateAdd ::
  "operand \<Rightarrow> operand \<Rightarrow> string \<Rightarrow> bool \<Rightarrow> bool \<Rightarrow> compiler \<Rightarrow> operand \<times> compiler" where
  "CreateAdd a b name HasNUW HasNSW st =
     (Reg (operand_ty a) name, Insert (Add a b name HasNUW HasNSW) st)"

definition CreateSub ::
  "operand \<Rightarrow> operand \<Rightarrow> string \<Rightarrow> bool \<Rightarrow> bool \<Rightarrow> compiler \<Rightarrow> operand \<times> compiler" where
  "CreateSub a b name HasNUW HasNSW st =
     (Reg (operand_ty a) name, Insert (Sub a b name HasNUW HasNSW) st)"

definition CreateZExt :: "operand \<Rightarrow> ty \<Rightarrow> string \<Rightarrow> compiler \<Rightarrow> operand \<times> compiler" where
  "CreateZExt v t name st =
     (if operand_ty v = t then (v, st) else (Reg t name, Insert (ZExt v t name) st))"

definition CreateTrunc :: "operand \<Rightarrow> ty \<Rightarrow> string \<Rightarrow> compiler \<Rightarrow> operand \<times> compiler" where
  "CreateTrunc v t name st =
     (if operand_ty v = t then (v, st) else (Reg t name, Insert (Trunc v t name) st))"

definition CreateICmpEQ :: "operand \<Rightarrow> operand \<Rightarrow> string \<Rightarrow> compiler \<Rightarrow> operand \<times> compiler" where
  "CreateICmpEQ a b name st = (Reg Int1Ty name, Insert (ICmpEQ a b name) st)"

definition CreateCall :: "func \<Rightarrow> operand list \<Rightarrow> string \<Rightarrow> compiler \<Rightarrow> operand \<times> compiler" where
  "CreateCall f args name st = (Reg (fn_ret f) name, Insert (Call f args name) st)"

definition CreateBr :: "nat \<Rightarrow> compiler \<Rightarrow> compiler" where
  "CreateBr b st = Insert (Br b) st"

definition CreateCondBr :: "operand \<Rightarrow> nat \<Rightarrow> nat \<Rightarrow> compiler \<Rightarrow> compiler" where
  "CreateCondBr c bt bf st = Insert (CondBr c bt bf) st"

definition CreateRet :: "operand \<Rightarrow> compiler \<Rightarrow> compiler" where
  "CreateRet v st = Insert (Ret v) st"

section \<open>checkBrackets\<close>

text \<open>
  The scan of \<^verbatim>\<open>checkBrackets\<close>. \<^verbatim>\<open>bracketCount\<close> is a C++ \<^verbatim>\<open>int\<close>:
  incrementing it at \<^verbatim>\<open>INT_MAX\<close> has no defined result, which is the outcome
  \<open>SignedOverflow\<close>. The function returns \<^verbatim>\<open>true\<close> (\<open>Passed\<close>) or reports a
  message and returns \<^verbatim>\<open>false\<close> (\<open>Failed\<close>).
\<close>

datatype check = Passed | Failed message | SignedOverflow

fun checkBrackets_loop :: "int \<Rightarrow> string \<Rightarrow> check" where
  "checkBrackets_loop bracketCount [] =
     (if bracketCount \<noteq> 0 then Failed BracketsDoNotMatch else Passed)"
| "checkBrackets_loop bracketCount (c # cs) =
     (if c = CHR ''['' then
        (if bracketCount = 2147483647 then SignedOverflow
         else checkBrackets_loop (bracketCount + 1) cs)
      else if c = CHR '']'' then
        (if bracketCount - 1 < 0 then Failed ExtraRightBracket
         else checkBrackets_loop (bracketCount - 1) cs)
      else checkBrackets_loop bracketCount cs)"

definition checkBrackets :: "string \<Rightarrow> check" where
  "checkBrackets source = checkBrackets_loop 0 source"

section \<open>Setting up the main function and the memory\<close>

definition createMainFunction :: "compiler \<Rightarrow> compiler" where
  "createMainFunction st =
     (let mainType = Func ''main'' Int32Ty [];
          (f, st1) = Function_Create mainType st;
          st2 = st1\<lparr>m_mainFunction := Some f\<rparr>;
          (entryBlock, st3) = BasicBlock_Create entry (m_mainFunction st2) st2
      in SetInsertPoint entryBlock st3)"

text \<open>
  \<^verbatim>\<open>Intrinsic::getOrInsertDeclaration(module, Intrinsic::memset, types)\<close>. The
  intrinsic is declared in LLVM as
  \<^verbatim>\<open>void llvm.memset(anyptr dest, i8 value, anyint length, i1 volatile)\<close>: the
  types of the destination and of the length are overloaded, and the list given
  in the call fixes them in this order. The name of the declaration is
  \<^verbatim>\<open>llvm.memset\<close> followed by one suffix for each type of the list. The
  declaration is added to the module unless it is there already.
\<close>

fun decimal :: "nat \<Rightarrow> string" where
  "decimal n = (if n < 10 then [char_of (48 + n)] else decimal (n div 10) @ [char_of (48 + n mod 10)])"

fun mangle :: "ty \<Rightarrow> string" where
  "mangle VoidTy = ''isVoid''"
| "mangle Int1Ty = ''i1''"
| "mangle Int8Ty = ''i8''"
| "mangle Int32Ty = ''i32''"
| "mangle Int64Ty = ''i64''"
| "mangle PtrTy = ''p0''"
| "mangle (ArrayTy t n) = ''a'' @ decimal n @ mangle t"

datatype intrinsic = Intrinsic_memset

fun intrinsic_decl :: "intrinsic \<Rightarrow> ty list \<Rightarrow> func" where
  "intrinsic_decl Intrinsic_memset tys =
     Func (''llvm.memset'' @ concat (map (\<lambda>t. ''.'' @ mangle t) tys)) VoidTy
       [hd tys, Int8Ty, hd (tl tys), Int1Ty]"

definition getOrInsertDeclaration :: "intrinsic \<Rightarrow> ty list \<Rightarrow> compiler \<Rightarrow> func \<times> compiler" where
  "getOrInsertDeclaration iid tys st =
     (let f = intrinsic_decl iid tys
      in (f, if f \<in> set (m_functions st) then st
             else st\<lparr>m_functions := m_functions st @ [f]\<rparr>))"

text \<open>The bit cast and the two calls without a name argument create unnamed
  values; they are given the empty name. The arguments of a call are evaluated
  before the call is created, so the bit cast comes before the call of
  \<^verbatim>\<open>llvm.memset\<close>.\<close>

definition allocateMemory :: "compiler \<Rightarrow> compiler" where
  "allocateMemory st =
     (let memoryArrayType = ArrayTy Int8Ty (m_memorySize st);
          (memoryArray, st1) = CreateAlloca memoryArrayType ''memory'' st;
          zero = ConstantInt Int8Ty 0;
          (memsetFunc, st2) =
             getOrInsertDeclaration Intrinsic_memset [operand_ty memoryArray, Int8Ty] st1;
          size = ConstantInt Int64Ty (int (m_memorySize st));
          volatileFlag = ConstantInt Int1Ty 0;
          (cast, st3) = CreateBitCast memoryArray Int8Ty [] st2;
          (call, st4) = CreateCall memsetFunc [cast, zero, size, volatileFlag] [] st3;
          (dataPtr, st5) = CreateAlloca Int8Ty ''dataptr'' st4;
          indices = [ConstantInt Int32Ty 0, ConstantInt Int32Ty (int (m_memorySize st div 2))];
          (initialPtr, st6) = CreateInBoundsGEP Int8Ty memoryArray indices ''initial_ptr'' st5
      in CreateStore initialPtr dataPtr st6)"

definition setupRuntimeFunctions :: "compiler \<Rightarrow> compiler" where
  "setupRuntimeFunctions st =
     (let putcharType = Func ''putchar'' Int32Ty [Int32Ty];
          (p, st1) = Function_Create putcharType st;
          getcharType = Func ''getchar'' Int32Ty [];
          (g, st2) = Function_Create getcharType st1
      in st2)"

text \<open>\<^verbatim>\<open>createDebugInfo\<close> creates the debug-info builder and attaches a
  subprogram to the main function; no instruction is created.\<close>

definition createDebugInfo :: "compiler \<Rightarrow> compiler" where
  "createDebugInfo st = st\<lparr>m_diBuilder := True\<rparr>"

section \<open>The eight instruction handlers\<close>

text \<open>In \<^verbatim>\<open>src/BrainfuckCompiler.cpp\<close> every load, also the load of the pointer
  kept in \<^verbatim>\<open>dataptr\<close>, is created with \<^verbatim>\<open>Type::getInt8Ty\<close>.\<close>

definition handleIncrementPtr :: "compiler \<Rightarrow> compiler" where
  "handleIncrementPtr st =
     (let (currentPtr, st1) = CreateLoad Int8Ty m_dataPtr ''current_ptr'' st;
          (newPtr, st2) = CreateConstGEP1_32 Int8Ty currentPtr 1 ''ptr_inc'' st1
      in CreateStore newPtr m_dataPtr st2)"

definition handleDecrementPtr :: "compiler \<Rightarrow> compiler" where
  "handleDecrementPtr st =
     (let (currentPtr, st1) = CreateLoad Int8Ty m_dataPtr ''current_ptr'' st;
          (newPtr, st2) = CreateConstGEP1_32 Int8Ty currentPtr (- 1) ''ptr_dec'' st1
      in CreateStore newPtr m_dataPtr st2)"

text \<open>The source passes \<^verbatim>\<open>true, true\<close> for the two flags of \<^verbatim>\<open>CreateAdd\<close> and
  of \<^verbatim>\<open>CreateSub\<close>.\<close>

definition handleIncrementByte :: "compiler \<Rightarrow> compiler" where
  "handleIncrementByte st =
     (let (currentPtr, st1) = CreateLoad Int8Ty m_dataPtr ''current_ptr'' st;
          (currentValue, st2) = CreateLoad Int8Ty currentPtr ''current_val'' st1;
          (newValue, st3) =
             CreateAdd currentValue (ConstantInt Int8Ty 1) ''val_inc'' True True st2
      in CreateStore newValue currentPtr st3)"

definition handleDecrementByte :: "compiler \<Rightarrow> compiler" where
  "handleDecrementByte st =
     (let (currentPtr, st1) = CreateLoad Int8Ty m_dataPtr ''current_ptr'' st;
          (currentValue, st2) = CreateLoad Int8Ty currentPtr ''current_val'' st1;
          (newValue, st3) =
             CreateSub currentValue (ConstantInt Int8Ty 1) ''val_dec'' True True st2
      in CreateStore newValue currentPtr st3)"

definition handleOutput :: "compiler \<Rightarrow> compiler" where
  "handleOutput st =
     (let (currentPtr, st1) = CreateLoad Int8Ty m_dataPtr ''current_ptr'' st;
          (currentValue, st2) = CreateLoad Int8Ty currentPtr ''output_val'' st1;
          (extendedValue, st3) = CreateZExt currentValue Int32Ty ''output_int'' st2;
          (call, st4) = CreateCall m_putcharFunc [extendedValue] [] st3
      in st4)"

definition handleInput :: "compiler \<Rightarrow> compiler" where
  "handleInput st =
     (let (inputValue, st1) = CreateCall m_getcharFunc [] ''input_char'' st;
          (truncatedValue, st2) = CreateTrunc inputValue Int8Ty ''input_byte'' st1;
          (currentPtr, st3) = CreateLoad Int8Ty m_dataPtr ''current_ptr'' st2
      in CreateStore truncatedValue currentPtr st3)"

definition handleLoopStart :: "nat \<Rightarrow> compiler \<Rightarrow> compiler" where
  "handleLoopStart ip st =
     (let (loopHeader, st1) = BasicBlock_Create (loop_header ip) (m_mainFunction st) st;
          (loopBody, st2) = BasicBlock_Create (loop_body ip) (m_mainFunction st1) st1;
          (loopEnd, st3) = BasicBlock_Create (loop_end ip) (m_mainFunction st2) st2;
          st4 = CreateBr loopHeader st3;
          st5 = SetInsertPoint loopHeader st4;
          (currentPtr, st6) = CreateLoad Int8Ty m_dataPtr ''current_ptr'' st5;
          (currentValue, st7) = CreateLoad Int8Ty currentPtr ''loop_val'' st6;
          zero = ConstantInt Int8Ty 0;
          (condition, st8) = CreateICmpEQ currentValue zero ''loop_cond'' st7;
          st9 = CreateCondBr condition loopEnd loopBody st8;
          st10 = SetInsertPoint loopBody st9
      in st10\<lparr>m_loopStartBlocks := loopHeader # m_loopStartBlocks st10,
               m_loopEndBlocks := loopEnd # m_loopEndBlocks st10\<rparr>)"

definition handleLoopEnd :: "nat \<Rightarrow> compiler \<Rightarrow> compiler" where
  "handleLoopEnd ip st =
     (if m_loopStartBlocks st = [] \<or> m_loopEndBlocks st = [] then
        reportError (ExtraRightBracketAt ip) st
      else
        let loopHeader = hd (m_loopStartBlocks st);
            loopEnd = hd (m_loopEndBlocks st);
            st1 = st\<lparr>m_loopStartBlocks := tl (m_loopStartBlocks st),
                     m_loopEndBlocks := tl (m_loopEndBlocks st)\<rparr>;
            st2 = CreateBr loopHeader st1
        in SetInsertPoint loopEnd st2)"

subsection \<open>The revision that loads the pointer with the pointer type\<close>

text \<open>
  The repository holds a second revision of the file (the second text in
  \<^verbatim>\<open>src/unnamed/part_001\<close>) in which the handlers load the pointer kept in
  \<^verbatim>\<open>dataptr\<close> with \<^verbatim>\<open>PointerType::get(*m_context, 0)\<close> and \<^verbatim>\<open>dataptr\<close> is
  allocated with that type; nothing else in the handlers differs, and
  \<^verbatim>\<open>handleLoopEnd\<close> is the same. These are its handlers, with a 2 after the
  name.
\<close>

definition handleIncrementPtr2 :: "compiler \<Rightarrow> compiler" where
  "handleIncrementPtr2 st =
     (let (currentPtr, st1) = CreateLoad PtrTy m_dataPtr ''current_ptr'' st;
          (newPtr, st2) = CreateConstGEP1_32 Int8Ty currentPtr 1 ''ptr_inc'' st1
      in CreateStore newPtr m_dataPtr st2)"

definition handleDecrementPtr2 :: "compiler \<Rightarrow> compiler" where
  "handleDecrementPtr2 st =
     (let (currentPtr, st1) = CreateLoad PtrTy m_dataPtr ''current_ptr'' st;
          (newPtr, st2) = CreateConstGEP1_32 Int8Ty currentPtr (- 1) ''ptr_dec'' st1
      in CreateStore newPtr m_dataPtr st2)"

definition handleIncrementByte2 :: "compiler \<Rightarrow> compiler" where
  "handleIncrementByte2 st =
     (let (currentPtr, st1) = CreateLoad PtrTy m_dataPtr ''current_ptr'' st;
          (currentValue, st2) = CreateLoad Int8Ty currentPtr ''current_val'' st1;
          (newValue, st3) =
             CreateAdd currentValue (ConstantInt Int8Ty 1) ''val_inc'' True True st2
      in CreateStore newValue currentPtr st3)"

definition handleDecrementByte2 :: "compiler \<Rightarrow> compiler" where
  "handleDecrementByte2 st =
     (let (currentPtr, st1) = CreateLoad PtrTy m_dataPtr ''current_ptr'' st;
          (currentValue, st2) = CreateLoad Int8Ty currentPtr ''current_val'' st1;
          (newValue, st3) =
             CreateSub currentValue (ConstantInt Int8Ty 1) ''val_dec'' True True st2
      in CreateStore newValue currentPtr st3)"

definition handleOutput2 :: "compiler \<Rightarrow> compiler" where
  "handleOutput2 st =
     (let (currentPtr, st1) = CreateLoad PtrTy m_dataPtr ''current_ptr'' st;
          (currentValue, st2) = CreateLoad Int8Ty currentPtr ''output_val'' st1;
          (extendedValue, st3) = CreateZExt currentValue Int32Ty ''output_int'' st2;
          (call, st4) = CreateCall m_putcharFunc [extendedValue] [] st3
      in st4)"

definition handleInput2 :: "compiler \<Rightarrow> compiler" where
  "handleInput2 st =
     (let (inputValue, st1) = CreateCall m_getcharFunc [] ''input_char'' st;
          (truncatedValue, st2) = CreateTrunc inputValue Int8Ty ''input_byte'' st1;
          (currentPtr, st3) = CreateLoad PtrTy m_dataPtr ''current_ptr'' st2
      in CreateStore truncatedValue currentPtr st3)"

definition handleLoopStart2 :: "nat \<Rightarrow> compiler \<Rightarrow> compiler" where
  "handleLoopStart2 ip st =
     (let (loopHeader, st1) = BasicBlock_Create (loop_header ip) (m_mainFunction st) st;
          (loopBody, st2) = BasicBlock_Create (loop_body ip) (m_mainFunction st1) st1;
          (loopEnd, st3) = BasicBlock_Create (loop_end ip) (m_mainFunction st2) st2;
          st4 = CreateBr loopHeader st3;
          st5 = SetInsertPoint loopHeader st4;
          (currentPtr, st6) = CreateLoad PtrTy m_dataPtr ''current_ptr'' st5;
          (currentValue, st7) = CreateLoad Int8Ty currentPtr ''loop_val'' st6;
          zero = ConstantInt Int8Ty 0;
          (condition, st8) = CreateICmpEQ currentValue zero ''loop_cond'' st7;
          st9 = CreateCondBr condition loopEnd loopBody st8;
          st10 = SetInsertPoint loopBody st9
      in st10\<lparr>m_loopStartBlocks := loopHeader # m_loopStartBlocks st10,
               m_loopEndBlocks := loopEnd # m_loopEndBlocks st10\<rparr>)"

section \<open>generateIR\<close>

definition is_instruction :: "char \<Rightarrow> bool" where
  "is_instruction c \<longleftrightarrow>
     \<not> (c \<noteq> CHR ''>'' \<and> c \<noteq> CHR ''<'' \<and> c \<noteq> CHR ''+'' \<and> c \<noteq> CHR ''-'' \<and>
        c \<noteq> CHR ''.'' \<and> c \<noteq> CHR '','' \<and> c \<noteq> CHR ''['' \<and> c \<noteq> CHR '']'')"

text \<open>\<^verbatim>\<open>m_statistics[c]++\<close> on a \<^verbatim>\<open>std::map<char, size_t>\<close>: a missing key is
  inserted with 0 first. A count never exceeds the length of the source, so the
  \<^verbatim>\<open>size_t\<close> cannot wrap.\<close>

definition count_instruction :: "char \<Rightarrow> compiler \<Rightarrow> compiler" where
  "count_instruction c st =
     st\<lparr>m_statistics := (m_statistics st)
          (c \<mapsto> (case m_statistics st c of None \<Rightarrow> 0 | Some n \<Rightarrow> n) + 1)\<rparr>"

text \<open>The body of the \<^verbatim>\<open>for\<close> loop for the character \<open>c\<close> at index \<open>i\<close>.\<close>

definition generateIR_step :: "nat \<Rightarrow> char \<Rightarrow> compiler \<Rightarrow> compiler" where
  "generateIR_step i c st0 =
     (let st = st0\<lparr>m_currentIP := i\<rparr> in
      if \<not> is_instruction c then st
      else
        let st1 = count_instruction c st in
        if c = CHR ''>'' then handleIncrementPtr st1
        else if c = CHR ''<'' then handleDecrementPtr st1
        else if c = CHR ''+'' then handleIncrementByte st1
        else if c = CHR ''-'' then handleDecrementByte st1
        else if c = CHR ''.'' then handleOutput st1
        else if c = CHR '','' then handleInput st1
        else if c = CHR ''['' then handleLoopStart i st1
        else if c = CHR '']'' then handleLoopEnd i st1
        else st1)"

fun generateIR_loop :: "nat \<Rightarrow> string \<Rightarrow> compiler \<Rightarrow> compiler" where
  "generateIR_loop i [] st = st"
| "generateIR_loop i (c # cs) st = generateIR_loop (Suc i) cs (generateIR_step i c st)"

definition generateIR :: "string \<Rightarrow> compiler \<Rightarrow> compiler" where
  "generateIR source st =
     (let st1 = generateIR_loop 0 source (st\<lparr>m_currentIP := 0\<rparr>);
          retValue = ConstantInt Int32Ty 0
      in CreateRet retValue st1)"

section \<open>compile\<close>

text \<open>
  The verifier, the optimisation passes, the JIT engine and the object-file writer
  are LLVM's and the system linker's; \<^verbatim>\<open>compile\<close> takes them as parameters.
  \<open>verifyModule\<close> is true when the module is broken, as in LLVM. None of the
  calls is taken to throw, so the \<^verbatim>\<open>catch\<close> clause has no branch here. The
  result is \<open>None\<close> when \<^verbatim>\<open>checkBrackets\<close> has no defined result.
\<close>

record backend =
  verifyModule :: "compiler \<Rightarrow> bool"
  optimizeModule :: "compiler \<Rightarrow> compiler"
  executeJIT :: "compiler \<Rightarrow> compiler"
  emitObjectFile :: "string \<Rightarrow> compiler \<Rightarrow> compiler"

definition prepare :: "compiler \<Rightarrow> compiler" where
  "prepare st =
     (let st1 = st\<lparr>m_statistics := Map.empty\<rparr>;
          st2 = createMainFunction st1;
          st3 = allocateMemory st2;
          st4 = setupRuntimeFunctions st3
      in if m_enableDebugInfo st4 then createDebugInfo st4 else st4)"

definition compile :: "backend \<Rightarrow> string \<Rightarrow> string \<Rightarrow> bool \<Rightarrow> compiler \<Rightarrow> (bool \<times> compiler) option" where
  "compile be source outputFile enableJIT st =
     (case checkBrackets source of
        SignedOverflow \<Rightarrow> None
      | Failed msg \<Rightarrow> Some (False, reportError msg st)
      | Passed \<Rightarrow>
          let st1 = generateIR source (prepare st) in
          if verifyModule be st1 then Some (False, reportError GeneratedIRInvalid st1)
          else
            let st2 = (if m_enableOptimization st1 then optimizeModule be st1 else st1);
                st3 = (if enableJIT then executeJIT be st2 else emitObjectFile be outputFile st2)
            in Some (True, st3))"

text \<open>The instructions a handler appends to the insertion block.\<close>

definition emitted :: "(compiler \<Rightarrow> compiler) \<Rightarrow> compiler \<Rightarrow> instr list" where
  "emitted f st =
     (case m_insertPoint st of
        None \<Rightarrow> []
      | Some b \<Rightarrow> drop (length (bb_instrs (m_blocks st ! b))) (bb_instrs (m_blocks (f st) ! b)))"

definition translate :: "nat \<Rightarrow> string \<Rightarrow> compiler" where
  "translate memorySize source = generateIR source (prepare (BrainfuckCompiler memorySize))"

section \<open>Well-formed instructions\<close>

text \<open>
  The rules of the LLVM language reference, which the verifier enforces, for the
  instructions above; \<open>instr_ok\<close> is false for an instruction that breaks one of
  them. The address operand of a load, of a store and of a \<^verbatim>\<open>getelementptr\<close> is
  a pointer. The indices of a \<^verbatim>\<open>getelementptr\<close> are integers; the first steps
  over values of the source element type, and each further one selects an element
  inside, which only an aggregate has. A bit cast converts a pointer to a pointer
  or an integer to an integer of the same width. The operands of an addition, a
  subtraction and a comparison have one type. \<^verbatim>\<open>zext\<close> goes to a wider and
  \<^verbatim>\<open>trunc\<close> to a narrower integer type. The arguments of a call have the
  parameter types of the callee, and the condition of a branch is an \<^verbatim>\<open>i1\<close>.
\<close>

fun is_int :: "ty \<Rightarrow> bool" where
  "is_int Int1Ty = True"
| "is_int Int8Ty = True"
| "is_int Int32Ty = True"
| "is_int Int64Ty = True"
| "is_int VoidTy = False"
| "is_int PtrTy = False"
| "is_int (ArrayTy t n) = False"

fun bits :: "ty \<Rightarrow> nat" where
  "bits Int1Ty = 1"
| "bits Int8Ty = 8"
| "bits Int32Ty = 32"
| "bits Int64Ty = 64"
| "bits PtrTy = 64"
| "bits VoidTy = 0"
| "bits (ArrayTy t n) = n * bits t"

fun sized :: "ty \<Rightarrow> bool" where
  "sized VoidTy = False"
| "sized (ArrayTy t n) = sized t"
| "sized Int1Ty = True"
| "sized Int8Ty = True"
| "sized Int32Ty = True"
| "sized Int64Ty = True"
| "sized PtrTy = True"

text \<open>\<^verbatim>\<open>GetElementPtrInst::getIndexedType\<close>: the type reached from the source
  element type by the indices after the first, if there is one.\<close>

fun type_at_indices :: "ty \<Rightarrow> operand list \<Rightarrow> ty option" where
  "type_at_indices t [] = Some t"
| "type_at_indices (ArrayTy t n) (i # is) = type_at_indices t is"
| "type_at_indices VoidTy (i # is) = None"
| "type_at_indices Int1Ty (i # is) = None"
| "type_at_indices Int8Ty (i # is) = None"
| "type_at_indices Int32Ty (i # is) = None"
| "type_at_indices Int64Ty (i # is) = None"
| "type_at_indices PtrTy (i # is) = None"

definition getIndexedType :: "ty \<Rightarrow> operand list \<Rightarrow> ty option" where
  "getIndexedType t idxs = (if idxs = [] then Some t else type_at_indices t (tl idxs))"

definition bitcast_ok :: "ty \<Rightarrow> ty \<Rightarrow> bool" where
  "bitcast_ok src dst \<longleftrightarrow>
     (src = PtrTy \<and> dst = PtrTy) \<or> (is_int src \<and> is_int dst \<and> bits src = bits dst)"

fun instr_ok :: "instr \<Rightarrow> bool" where
  "instr_ok (Alloca t name) = sized t"
| "instr_ok (BitCast v t name) = bitcast_ok (operand_ty v) t"
| "instr_ok (GetElementPtr inb t p idxs name) =
     (operand_ty p = PtrTy \<and> sized t \<and> list_all (\<lambda>i. is_int (operand_ty i)) idxs \<and>
      getIndexedType t idxs \<noteq> None)"
| "instr_ok (Load t p name) = (operand_ty p = PtrTy \<and> sized t)"
| "instr_ok (Store v p) = (operand_ty p = PtrTy \<and> sized (operand_ty v))"
| "instr_ok (Add a b name nuw nsw) = (is_int (operand_ty a) \<and> operand_ty a = operand_ty b)"
| "instr_ok (Sub a b name nuw nsw) = (is_int (operand_ty a) \<and> operand_ty a = operand_ty b)"
| "instr_ok (ZExt v t name) = (is_int (operand_ty v) \<and> is_int t \<and> bits (operand_ty v) < bits t)"
| "instr_ok (Trunc v t name) = (is_int (operand_ty v) \<and> is_int t \<and> bits t < bits (operand_ty v))"
| "instr_ok (ICmpEQ a b name) =
     ((is_int (operand_ty a) \<or> operand_ty a = PtrTy) \<and> operand_ty a = operand_ty b)"
| "instr_ok (Call f args name) = (map operand_ty args = fn_params f)"
| "instr_ok (Br b) = True"
| "instr_ok (CondBr c bt bf) = (operand_ty c = Int1Ty)"
| "instr_ok (Ret v) = sized (operand_ty v)"

text \<open>A module with an instruction that is not well formed is broken. (The
  verifier of LLVM checks more than this: a terminator at the end of every block,
  definitions before uses, the result type of the function at a return.)\<close>

definition broken :: "compiler \<Rightarrow> bool" where
  "broken st \<longleftrightarrow> list_ex (\<lambda>b. list_ex (\<lambda>i. \<not> instr_ok i) (bb_instrs b)) (m_blocks st)"

section \<open>Running the created instructions\<close>

text \<open>
  What the created instructions compute, after the LLVM language reference. Only
  a well-formed instruction computes anything: the step of any other one is
  \<open>Ill_Formed\<close>.

  Memory is a list of allocated objects, each a list of bytes; a pointer is an
  object and a byte offset into it, and the offset may leave the object. A value
  of type \<open>t\<close> takes \<open>size_of t\<close> bytes, a pointer 8 as on the 64-bit targets. A
  byte of memory is a number, or one of the 8 bytes of a stored pointer, or poison.
  The bytes of a fresh \<^verbatim>\<open>alloca\<close> are poison here (the reference makes the
  content of uninitialised memory undefined). A load reads the bytes its type
  takes and gives a value of that type: bytes that are not all numbers do not make
  an integer, and bytes that are not the 8 bytes of one stored pointer in their
  order do not make a pointer; the value is then poison (addresses have no
  numeric value in this model). The result of an addition or subtraction that
  breaks its \<^verbatim>\<open>nuw\<close> or \<^verbatim>\<open>nsw\<close> flag is poison. An access that is not inside
  an allocated object and a branch on poison have no defined behaviour.
\<close>

datatype mbyte = Byte "8 word" | PtrByte nat int nat | PoisonByte

datatype val = VInt1 bool | VInt8 "8 word" | VInt32 "32 word" | VInt64 "64 word"
  | VPtr nat int | VBytes "mbyte list" | VPoison

record machine =
  regs :: "string \<rightharpoonup> val"
  heap :: "mbyte list list"
  stdin :: "8 word list"
  stdout :: "8 word list"

datatype step = Next machine | Jump nat machine | Return val machine
  | Undefined_Behaviour | Ill_Formed

fun const_val :: "ty \<Rightarrow> int \<Rightarrow> val" where
  "const_val Int1Ty n = VInt1 (odd n)"
| "const_val Int8Ty n = VInt8 (of_int n)"
| "const_val Int32Ty n = VInt32 (of_int n)"
| "const_val Int64Ty n = VInt64 (of_int n)"
| "const_val VoidTy n = VPoison"
| "const_val PtrTy n = VPoison"
| "const_val (ArrayTy t k) n = VPoison"

fun eval :: "machine \<Rightarrow> operand \<Rightarrow> val" where
  "eval m (ConstantInt t n) = const_val t n"
| "eval m (Reg t r) = (case regs m r of None \<Rightarrow> VPoison | Some v \<Rightarrow> v)"

definition set_reg :: "string \<Rightarrow> val \<Rightarrow> machine \<Rightarrow> machine" where
  "set_reg name v m = m\<lparr>regs := (regs m)(name \<mapsto> v)\<rparr>"

fun size_of :: "ty \<Rightarrow> nat" where
  "size_of VoidTy = 0"
| "size_of Int1Ty = 1"
| "size_of Int8Ty = 1"
| "size_of Int32Ty = 4"
| "size_of Int64Ty = 8"
| "size_of PtrTy = 8"
| "size_of (ArrayTy t n) = n * size_of t"

subsection \<open>Values in memory\<close>

text \<open>Integers are stored with the low byte first.\<close>

fun word_bytes :: "nat \<Rightarrow> 'a::len word \<Rightarrow> mbyte list" where
  "word_bytes 0 w = []"
| "word_bytes (Suc n) w = Byte (ucast w) # word_bytes n (drop_bit 8 w)"

fun bytes_word :: "8 word list \<Rightarrow> 'a::len word" where
  "bytes_word [] = 0"
| "bytes_word (b # bs) = ucast b + push_bit 8 (bytes_word bs)"

fun the_bytes :: "mbyte list \<Rightarrow> 8 word list option" where
  "the_bytes [] = Some []"
| "the_bytes (Byte w # bs) = map_option ((#) w) (the_bytes bs)"
| "the_bytes (PtrByte k off j # bs) = None"
| "the_bytes (PoisonByte # bs) = None"

definition pointer_bytes :: "nat \<Rightarrow> int \<Rightarrow> mbyte list" where
  "pointer_bytes k off =
     [PtrByte k off 0, PtrByte k off 1, PtrByte k off 2, PtrByte k off 3,
      PtrByte k off 4, PtrByte k off 5, PtrByte k off 6, PtrByte k off 7]"

definition the_pointer :: "mbyte list \<Rightarrow> val" where
  "the_pointer bs =
     (case bs of
        PtrByte k off j # r \<Rightarrow> if bs = pointer_bytes k off then VPtr k off else VPoison
      | _ \<Rightarrow> VPoison)"

fun encode :: "ty \<Rightarrow> val \<Rightarrow> mbyte list" where
  "encode Int1Ty (VInt1 b) = [Byte (if b then 1 else 0)]"
| "encode Int8Ty (VInt8 w) = [Byte w]"
| "encode Int32Ty (VInt32 w) = word_bytes 4 w"
| "encode Int64Ty (VInt64 w) = word_bytes 8 w"
| "encode PtrTy (VPtr k off) = pointer_bytes k off"
| "encode (ArrayTy t n) (VBytes bs) =
     (if length bs = n * size_of t then bs else replicate (n * size_of t) PoisonByte)"
| "encode t v = replicate (size_of t) PoisonByte"

fun decode :: "ty \<Rightarrow> mbyte list \<Rightarrow> val" where
  "decode Int1Ty bs =
     (case the_bytes bs of
        Some [w] \<Rightarrow> if w = 0 then VInt1 False else if w = 1 then VInt1 True else VPoison
      | _ \<Rightarrow> VPoison)"
| "decode Int8Ty bs = (case the_bytes bs of Some [w] \<Rightarrow> VInt8 w | _ \<Rightarrow> VPoison)"
| "decode Int32Ty bs =
     (case the_bytes bs of
        Some ws \<Rightarrow> if length ws = 4 then VInt32 (bytes_word ws) else VPoison
      | None \<Rightarrow> VPoison)"
| "decode Int64Ty bs =
     (case the_bytes bs of
        Some ws \<Rightarrow> if length ws = 8 then VInt64 (bytes_word ws) else VPoison
      | None \<Rightarrow> VPoison)"
| "decode PtrTy bs = the_pointer bs"
| "decode (ArrayTy t n) bs = VBytes bs"
| "decode VoidTy bs = VPoison"

definition in_object :: "mbyte list list \<Rightarrow> nat \<Rightarrow> int \<Rightarrow> nat \<Rightarrow> bool" where
  "in_object h k off n \<longleftrightarrow> k < length h \<and> 0 \<le> off \<and> off + int n \<le> int (length (h ! k))"

fun load :: "ty \<Rightarrow> mbyte list list \<Rightarrow> val \<Rightarrow> val option" where
  "load t h (VPtr k off) =
     (if in_object h k off (size_of t)
      then Some (decode t (take (size_of t) (drop (nat off) (h ! k)))) else None)"
| "load t h (VInt1 b) = None"
| "load t h (VInt8 w) = None"
| "load t h (VInt32 w) = None"
| "load t h (VInt64 w) = None"
| "load t h (VBytes bs) = None"
| "load t h VPoison = None"

fun store :: "ty \<Rightarrow> mbyte list list \<Rightarrow> val \<Rightarrow> val \<Rightarrow> mbyte list list option" where
  "store t h (VPtr k off) v =
     (if in_object h k off (size_of t)
      then Some (h[k := take (nat off) (h ! k) @ encode t v @ drop (nat off + size_of t) (h ! k)])
      else None)"
| "store t h (VInt1 b) v = None"
| "store t h (VInt8 w) v = None"
| "store t h (VInt32 w) v = None"
| "store t h (VInt64 w) v = None"
| "store t h (VBytes bs) v = None"
| "store t h VPoison v = None"

subsection \<open>Address arithmetic\<close>

text \<open>The indices of a \<^verbatim>\<open>getelementptr\<close> are read as signed numbers. The first
  index steps over whole values of the source element type, each further index
  over the elements of the array reached. A poison index gives a poison result.\<close>

fun index_of :: "val \<Rightarrow> int option" where
  "index_of (VInt1 b) = Some (if b then - 1 else 0)"
| "index_of (VInt8 w) = Some (sint w)"
| "index_of (VInt32 w) = Some (sint w)"
| "index_of (VInt64 w) = Some (sint w)"
| "index_of (VPtr k off) = None"
| "index_of (VBytes bs) = None"
| "index_of VPoison = None"

fun inner_offset :: "ty \<Rightarrow> int list \<Rightarrow> int" where
  "inner_offset (ArrayTy t n) (i # is) = i * int (size_of t) + inner_offset t is"
| "inner_offset t is = 0"

fun gep_offset :: "ty \<Rightarrow> int list \<Rightarrow> int" where
  "gep_offset t [] = 0"
| "gep_offset t (i # is) = i * int (size_of t) + inner_offset t is"

text \<open>An \<^verbatim>\<open>inbounds\<close> result outside the object (one past its end is allowed) is
  poison.\<close>

fun gep :: "bool \<Rightarrow> mbyte list list \<Rightarrow> val \<Rightarrow> int option \<Rightarrow> val" where
  "gep inb h (VPtr k off) (Some d) =
     (if inb \<and> \<not> (k < length h \<and> 0 \<le> off + d \<and> off + d \<le> int (length (h ! k)))
      then VPoison else VPtr k (off + d))"
| "gep inb h (VPtr k off) None = VPoison"
| "gep inb h (VInt1 b) d = VPoison"
| "gep inb h (VInt8 w) d = VPoison"
| "gep inb h (VInt32 w) d = VPoison"
| "gep inb h (VInt64 w) d = VPoison"
| "gep inb h (VBytes bs) d = VPoison"
| "gep inb h VPoison d = VPoison"

subsection \<open>Arithmetic\<close>

text \<open>\<^verbatim>\<open>add\<close> and \<^verbatim>\<open>sub\<close> with the flags \<^verbatim>\<open>nuw\<close> (no unsigned wrap) and
  \<^verbatim>\<open>nsw\<close> (no signed wrap): \<open>None\<close> stands for poison.\<close>

definition add_flags :: "bool \<Rightarrow> bool \<Rightarrow> 'a::len word \<Rightarrow> 'a word \<Rightarrow> 'a word option" where
  "add_flags nuw nsw x y =
     (if (nuw \<and> uint x + uint y \<noteq> uint (x + y)) \<or> (nsw \<and> sint x + sint y \<noteq> sint (x + y))
      then None else Some (x + y))"

definition sub_flags :: "bool \<Rightarrow> bool \<Rightarrow> 'a::len word \<Rightarrow> 'a word \<Rightarrow> 'a word option" where
  "sub_flags nuw nsw x y =
     (if (nuw \<and> uint x - uint y \<noteq> uint (x - y)) \<or> (nsw \<and> sint x - sint y \<noteq> sint (x - y))
      then None else Some (x - y))"

definition of_flags :: "('a word \<Rightarrow> val) \<Rightarrow> 'a word option \<Rightarrow> val" where
  "of_flags mk r = (case r of None \<Rightarrow> VPoison | Some w \<Rightarrow> mk w)"

fun arith :: "bool \<Rightarrow> bool \<Rightarrow> bool \<Rightarrow> val \<Rightarrow> val \<Rightarrow> val" where
  "arith is_sub nuw nsw (VInt8 x) (VInt8 y) =
     of_flags VInt8 (if is_sub then sub_flags nuw nsw x y else add_flags nuw nsw x y)"
| "arith is_sub nuw nsw (VInt32 x) (VInt32 y) =
     of_flags VInt32 (if is_sub then sub_flags nuw nsw x y else add_flags nuw nsw x y)"
| "arith is_sub nuw nsw (VInt64 x) (VInt64 y) =
     of_flags VInt64 (if is_sub then sub_flags nuw nsw x y else add_flags nuw nsw x y)"
| "arith is_sub nuw nsw a b = VPoison"

fun zext :: "val \<Rightarrow> ty \<Rightarrow> val" where
  "zext (VInt8 x) Int32Ty = VInt32 (ucast x)"
| "zext (VInt8 x) Int64Ty = VInt64 (ucast x)"
| "zext (VInt32 x) Int64Ty = VInt64 (ucast x)"
| "zext (VInt1 x) Int8Ty = VInt8 (if x then 1 else 0)"
| "zext (VInt1 x) Int32Ty = VInt32 (if x then 1 else 0)"
| "zext (VInt1 x) Int64Ty = VInt64 (if x then 1 else 0)"
| "zext v t = VPoison"

fun trunc :: "val \<Rightarrow> ty \<Rightarrow> val" where
  "trunc (VInt32 x) Int8Ty = VInt8 (ucast x)"
| "trunc (VInt64 x) Int8Ty = VInt8 (ucast x)"
| "trunc (VInt64 x) Int32Ty = VInt32 (ucast x)"
| "trunc (VInt8 x) Int1Ty = VInt1 (odd x)"
| "trunc (VInt32 x) Int1Ty = VInt1 (odd x)"
| "trunc (VInt64 x) Int1Ty = VInt1 (odd x)"
| "trunc v t = VPoison"

fun icmp_eq :: "val \<Rightarrow> val \<Rightarrow> val" where
  "icmp_eq (VInt8 x) (VInt8 y) = VInt1 (x = y)"
| "icmp_eq (VInt32 x) (VInt32 y) = VInt1 (x = y)"
| "icmp_eq (VInt64 x) (VInt64 y) = VInt1 (x = y)"
| "icmp_eq (VInt1 x) (VInt1 y) = VInt1 (x = y)"
| "icmp_eq a b = VPoison"

subsection \<open>The runtime functions\<close>

text \<open>
  \<^verbatim>\<open>llvm.memset(dest, value, length, volatile)\<close> writes the byte to \<open>length\<close>
  bytes from \<open>dest\<close> on; the length is an unsigned number of the integer type
  the declaration has. \<^verbatim>\<open>putchar\<close> and \<^verbatim>\<open>getchar\<close> are the C library's:
  \<^verbatim>\<open>putchar\<close> writes its argument converted to \<^verbatim>\<open>unsigned char\<close> and returns
  it; \<^verbatim>\<open>getchar\<close> returns the next byte as a number from 0 to 255, or
  \<^verbatim>\<open>EOF\<close>, which is -1, when the input is exhausted.
\<close>

fun length_of :: "val \<Rightarrow> nat option" where
  "length_of (VInt1 b) = Some (if b then 1 else 0)"
| "length_of (VInt8 w) = Some (unat w)"
| "length_of (VInt32 w) = Some (unat w)"
| "length_of (VInt64 w) = Some (unat w)"
| "length_of (VPtr k off) = None"
| "length_of (VBytes bs) = None"
| "length_of VPoison = None"

fun memset :: "val list \<Rightarrow> machine \<Rightarrow> step" where
  "memset [VPtr k off, VInt8 v, len, vol] m =
     (case length_of len of
        None \<Rightarrow> Undefined_Behaviour
      | Some n \<Rightarrow>
          if in_object (heap m) k off n then
            Next (m\<lparr>heap := (heap m)[k := take (nat off) (heap m ! k) @ replicate n (Byte v)
                                          @ drop (nat off + n) (heap m ! k)]\<rparr>)
          else Undefined_Behaviour)"
| "memset args m = Undefined_Behaviour"

fun putchar :: "val list \<Rightarrow> string \<Rightarrow> machine \<Rightarrow> step" where
  "putchar [VInt32 c] name m =
     Next (set_reg name (VInt32 (ucast (ucast c :: 8 word))) (m\<lparr>stdout := stdout m @ [ucast c]\<rparr>))"
| "putchar args name m = Undefined_Behaviour"

definition next_char :: "machine \<Rightarrow> 32 word" where
  "next_char m = (case stdin m of [] \<Rightarrow> - 1 | b # bs \<Rightarrow> ucast b)"

fun getchar :: "val list \<Rightarrow> string \<Rightarrow> machine \<Rightarrow> step" where
  "getchar [] name m = Next (set_reg name (VInt32 (next_char m)) (m\<lparr>stdin := tl (stdin m)\<rparr>))"
| "getchar args name m = Undefined_Behaviour"

subsection \<open>Instructions and blocks\<close>

fun branch :: "val \<Rightarrow> nat \<Rightarrow> nat \<Rightarrow> machine \<Rightarrow> step" where
  "branch (VInt1 c) bt bf m = Jump (if c then bt else bf) m"
| "branch v bt bf m = Undefined_Behaviour"

text \<open>The step of a well-formed instruction.\<close>

fun exec :: "instr \<Rightarrow> machine \<Rightarrow> step" where
  "exec (Alloca t name) m =
     Next (m\<lparr>regs := (regs m)(name \<mapsto> VPtr (length (heap m)) 0),
             heap := heap m @ [replicate (size_of t) PoisonByte]\<rparr>)"
| "exec (BitCast v t name) m = Next (set_reg name (eval m v) m)"
| "exec (GetElementPtr inb t p idxs name) m =
     Next (set_reg name
       (gep inb (heap m) (eval m p)
          (map_option (gep_offset t) (those (map (\<lambda>i. index_of (eval m i)) idxs)))) m)"
| "exec (Load t p name) m =
     (case load t (heap m) (eval m p) of
        None \<Rightarrow> Undefined_Behaviour
      | Some v \<Rightarrow> Next (set_reg name v m))"
| "exec (Store v p) m =
     (case store (operand_ty v) (heap m) (eval m p) (eval m v) of
        None \<Rightarrow> Undefined_Behaviour
      | Some h \<Rightarrow> Next (m\<lparr>heap := h\<rparr>))"
| "exec (Add a b name nuw nsw) m =
     Next (set_reg name (arith False nuw nsw (eval m a) (eval m b)) m)"
| "exec (Sub a b name nuw nsw) m =
     Next (set_reg name (arith True nuw nsw (eval m a) (eval m b)) m)"
| "exec (ZExt v t name) m = Next (set_reg name (zext (eval m v) t) m)"
| "exec (Trunc v t name) m = Next (set_reg name (trunc (eval m v) t) m)"
| "exec (ICmpEQ a b name) m = Next (set_reg name (icmp_eq (eval m a) (eval m b)) m)"
| "exec (Call f args name) m =
     (if take 12 (fn_name f) = ''llvm.memset.'' then memset (map (eval m) args) m
      else if fn_name f = ''putchar'' then putchar (map (eval m) args) name m
      else if fn_name f = ''getchar'' then getchar (map (eval m) args) name m
      else Undefined_Behaviour)"
| "exec (Br b) m = Jump b m"
| "exec (CondBr c bt bf) m = branch (eval m c) bt bf m"
| "exec (Ret v) m = Return (eval m v) m"

definition exec_instr :: "instr \<Rightarrow> machine \<Rightarrow> step" where
  "exec_instr i m = (if instr_ok i then exec i m else Ill_Formed)"

text \<open>A list of instructions runs until one of them leaves the list.\<close>

fun exec_instrs :: "instr list \<Rightarrow> machine \<Rightarrow> step" where
  "exec_instrs [] m = Next m"
| "exec_instrs (i # is) m =
     (case exec_instr i m of
        Next m' \<Rightarrow> exec_instrs is m'
      | Jump b m' \<Rightarrow> Jump b m'
      | Return v m' \<Rightarrow> Return v m'
      | Undefined_Behaviour \<Rightarrow> Undefined_Behaviour
      | Ill_Formed \<Rightarrow> Ill_Formed)"

definition start :: "8 word list \<Rightarrow> machine" where
  "start input = \<lparr> regs = Map.empty, heap = [], stdin = input, stdout = [] \<rparr>"

text \<open>
  Both revisions allocate \<^verbatim>\<open>memory\<close> first and \<^verbatim>\<open>dataptr\<close> second, so in a
  run from \<open>start\<close> the bytes of the array are object 0 and the stored pointer is
  in object 1. \<open>laid_out\<close> describes a machine with this layout in which
  \<^verbatim>\<open>dataptr\<close> has room for a pointer, as it has when it is allocated with the
  pointer type, and in which the name \<^verbatim>\<open>dataptr\<close> refers to object 1.
\<close>

definition memory_cells :: "machine \<Rightarrow> mbyte list" where
  "memory_cells m = heap m ! 0"

definition data_pointer :: "machine \<Rightarrow> val" where
  "data_pointer m = decode PtrTy (heap m ! 1)"

definition laid_out :: "machine \<Rightarrow> bool" where
  "laid_out m \<longleftrightarrow>
     regs m ''dataptr'' = Some (VPtr 1 0) \<and> length (heap m) = 2 \<and> length (heap m ! 1) = 8"

text \<open>A run that has not come to the end of the instructions given to it: it
  stopped at an instruction that is not well formed, or at one without defined
  behaviour.\<close>

fun no_result :: "step \<Rightarrow> bool" where
  "no_result Ill_Formed = True"
| "no_result Undefined_Behaviour = True"
| "no_result (Next m) = False"
| "no_result (Jump b m) = False"
| "no_result (Return v m) = False"

fun next_machine :: "step \<Rightarrow> machine option" where
  "next_machine (Next m) = Some m"
| "next_machine (Jump b m) = None"
| "next_machine (Return v m) = None"
| "next_machine Undefined_Behaviour = None"
| "next_machine Ill_Formed = None"

fun jump_target :: "step \<Rightarrow> nat option" where
  "jump_target (Jump b m) = Some b"
| "jump_target (Next m) = None"
| "jump_target (Return v m) = None"
| "jump_target Undefined_Behaviour = None"
| "jump_target Ill_Formed = None"

section \<open>Notions of the specification\<close>

text \<open>The running bracket counter of the specification after a piece of source
  text: incremented on \<^verbatim>\<open>[\<close>, decremented on \<^verbatim>\<open>]\<close>.\<close>

definition balance :: "string \<Rightarrow> int" where
  "balance cs = int (count_list cs CHR ''['') - int (count_list cs CHR '']'')"

text \<open>The builder has an insertion block, and it and every block on the two loop
  stacks exist.\<close>

definition well_formed :: "compiler \<Rightarrow> bool" where
  "well_formed st \<longleftrightarrow>
     (case m_insertPoint st of None \<Rightarrow> False | Some b \<Rightarrow> b < length (m_blocks st)) \<and>
     list_all (\<lambda>h. h < length (m_blocks st)) (m_loopStartBlocks st) \<and>
     list_all (\<lambda>e. e < length (m_blocks st)) (m_loopEndBlocks st)"

text \<open>The builder only appends: every block that exists keeps its place and its
  instructions, with more instructions after them at most.\<close>

definition extends :: "compiler \<Rightarrow> compiler \<Rightarrow> bool" where
  "extends st st' \<longleftrightarrow>
     length (m_blocks st) \<le> length (m_blocks st') \<and>
     list_all (\<lambda>j. prefix (bb_instrs (m_blocks st ! j)) (bb_instrs (m_blocks st' ! j)))
       [0 ..< length (m_blocks st)]"

section \<open>The bracket check\<close>

lemma balance_Nil: "balance [] = 0"
  by (simp add: balance_def)

lemma balance_Cons:
  "balance (c # cs) = (if c = CHR ''['' then 1 else if c = CHR '']'' then - 1 else 0) + balance cs"
  by (simp add: balance_def)

lemma balance_le_length: "balance cs \<le> int (length cs)"
  by (induction cs) (auto simp: balance_Cons balance_Nil)


text \<open>The counter overflows on a source that opens \<open>2 ^ 31\<close> loops.\<close>

lemma checkBrackets_loop_open:
  "n + int k \<le> 2147483647 \<Longrightarrow>
   checkBrackets_loop n (replicate k CHR ''['' @ cs) = checkBrackets_loop (n + int k) cs"
  by (induction k arbitrary: n) (simp_all add: add.assoc)

lemma checkBrackets_overflow:
  "checkBrackets (replicate 2147483648 CHR ''['') = SignedOverflow"
proof -
  have "replicate (2147483647 + 1) CHR ''['' = replicate 2147483647 CHR ''['' @ replicate 1 CHR ''[''"
    by (rule replicate_add)
  then have "replicate 2147483648 CHR ''['' = replicate 2147483647 CHR ''['' @ [CHR ''['']"
    by simp
  then show ?thesis
    using checkBrackets_loop_open[of 0 2147483647 "[CHR ''['']"]
    by (simp add: checkBrackets_def)
qed





section \<open>The builder and the instructions of each handler\<close>

lemma Insert_Some:
  "m_insertPoint st = Some b \<Longrightarrow>
   Insert i st = st\<lparr>m_blocks := (m_blocks st)
     [b := (m_blocks st ! b)\<lparr>bb_instrs := bb_instrs (m_blocks st ! b) @ [i]\<rparr>]\<rparr>"
  by (simp add: Insert_def)

lemma emit_Nil: "emit [] st = st"
  by (simp add: emit_def)

lemma emit_Cons: "emit (i # is) st = emit is (Insert i st)"
  by (simp add: emit_def)

lemma emit_None: "m_insertPoint st = None \<Longrightarrow> emit is st = st"
  by (induction "is") (simp_all add: emit_Nil emit_Cons Insert_def)

lemma emit_Some:
  "m_insertPoint st = Some b \<Longrightarrow>
   emit is st = st\<lparr>m_blocks := (m_blocks st)
     [b := (m_blocks st ! b)\<lparr>bb_instrs := bb_instrs (m_blocks st ! b) @ is\<rparr>]\<rparr>"
proof (induction "is" arbitrary: st)
  case Nil
  then show ?case by (simp add: emit_Nil)
next
  case (Cons i "is")
  let ?st1 = "Insert i st"
  have ip: "m_insertPoint ?st1 = Some b"
    using Cons.prems by (simp add: Insert_Some)
  show ?case
  proof (cases "b < length (m_blocks st)")
    case True
    then show ?thesis
      using Cons.prems by (simp add: emit_Cons Cons.IH[OF ip]) (simp add: Insert_Some)
  next
    case False
    then show ?thesis
      using Cons.prems by (simp add: emit_Cons Cons.IH[OF ip]) (simp add: Insert_Some list_update_beyond)
  qed
qed

lemma emitted_emit:
  "m_insertPoint st = Some b \<Longrightarrow> b < length (m_blocks st) \<Longrightarrow> emitted (emit is) st = is"
  by (simp add: emitted_def emit_Some)

lemma Insert_emit: "Insert i st = emit [i] st"
  by (simp add: emit_Cons emit_Nil)

lemma emit_emit: "emit ys (emit xs st) = emit (xs @ ys) st"
  by (simp add: emit_def)

lemmas builder_defs = CreateAlloca_def CreateBitCast_def CreateLoad_def CreateStore_def
  CreateConstGEP1_32_def CreateInBoundsGEP_def CreateAdd_def CreateSub_def CreateZExt_def
  CreateTrunc_def CreateICmpEQ_def CreateCall_def CreateBr_def CreateCondBr_def CreateRet_def

text \<open>The values that \<^verbatim>\<open>allocateMemory\<close> assigns to \<^verbatim>\<open>m_memoryArray\<close> and
  \<^verbatim>\<open>m_dataPtr\<close>.\<close>

lemma members_assigned:
  "fst (CreateAlloca t ''memory'' st) = m_memoryArray"
  "fst (CreateAlloca t ''dataptr'' st) = m_dataPtr"
  by (simp_all add: CreateAlloca_def m_memoryArray_def m_dataPtr_def)

text \<open>The instructions of each handler, with the types the builder gives to the
  values.\<close>

lemma handleIncrementPtr_emit:
  "handleIncrementPtr st =
     emit [Load Int8Ty m_dataPtr ''current_ptr'',
           GetElementPtr False Int8Ty (Reg Int8Ty ''current_ptr'') [ConstantInt Int32Ty 1] ''ptr_inc'',
           Store (Reg Int8Ty ''ptr_inc'') m_dataPtr] st"
  by (simp add: handleIncrementPtr_def builder_defs Insert_emit emit_emit Let_def)

lemma handleDecrementPtr_emit:
  "handleDecrementPtr st =
     emit [Load Int8Ty m_dataPtr ''current_ptr'',
           GetElementPtr False Int8Ty (Reg Int8Ty ''current_ptr'')
             [ConstantInt Int32Ty 4294967295] ''ptr_dec'',
           Store (Reg Int8Ty ''ptr_dec'') m_dataPtr] st"
  by (simp add: handleDecrementPtr_def builder_defs Insert_emit emit_emit Let_def)

lemma handleIncrementByte_emit:
  "handleIncrementByte st =
     emit [Load Int8Ty m_dataPtr ''current_ptr'',
           Load Int8Ty (Reg Int8Ty ''current_ptr'') ''current_val'',
           Add (Reg Int8Ty ''current_val'') (ConstantInt Int8Ty 1) ''val_inc'' True True,
           Store (Reg Int8Ty ''val_inc'') (Reg Int8Ty ''current_ptr'')] st"
  by (simp add: handleIncrementByte_def builder_defs Insert_emit emit_emit Let_def)

lemma handleDecrementByte_emit:
  "handleDecrementByte st =
     emit [Load Int8Ty m_dataPtr ''current_ptr'',
           Load Int8Ty (Reg Int8Ty ''current_ptr'') ''current_val'',
           Sub (Reg Int8Ty ''current_val'') (ConstantInt Int8Ty 1) ''val_dec'' True True,
           Store (Reg Int8Ty ''val_dec'') (Reg Int8Ty ''current_ptr'')] st"
  by (simp add: handleDecrementByte_def builder_defs Insert_emit emit_emit Let_def)

lemma handleOutput_emit:
  "handleOutput st =
     emit [Load Int8Ty m_dataPtr ''current_ptr'',
           Load Int8Ty (Reg Int8Ty ''current_ptr'') ''output_val'',
           ZExt (Reg Int8Ty ''output_val'') Int32Ty ''output_int'',
           Call m_putcharFunc [Reg Int32Ty ''output_int''] []] st"
  by (simp add: handleOutput_def builder_defs Insert_emit emit_emit Let_def)

lemma handleInput_emit:
  "handleInput st =
     emit [Call m_getcharFunc [] ''input_char'',
           Trunc (Reg Int32Ty ''input_char'') Int8Ty ''input_byte'',
           Load Int8Ty m_dataPtr ''current_ptr'',
           Store (Reg Int8Ty ''input_byte'') (Reg Int8Ty ''current_ptr'')] st"
  by (simp add: handleInput_def builder_defs Insert_emit emit_emit Let_def m_getcharFunc_def)

lemma handleIncrementPtr2_emit:
  "handleIncrementPtr2 st =
     emit [Load PtrTy m_dataPtr ''current_ptr'',
           GetElementPtr False Int8Ty (Reg PtrTy ''current_ptr'') [ConstantInt Int32Ty 1] ''ptr_inc'',
           Store (Reg PtrTy ''ptr_inc'') m_dataPtr] st"
  by (simp add: handleIncrementPtr2_def builder_defs Insert_emit emit_emit Let_def)

lemma handleDecrementPtr2_emit:
  "handleDecrementPtr2 st =
     emit [Load PtrTy m_dataPtr ''current_ptr'',
           GetElementPtr False Int8Ty (Reg PtrTy ''current_ptr'')
             [ConstantInt Int32Ty 4294967295] ''ptr_dec'',
           Store (Reg PtrTy ''ptr_dec'') m_dataPtr] st"
  by (simp add: handleDecrementPtr2_def builder_defs Insert_emit emit_emit Let_def)

lemma handleIncrementByte2_emit:
  "handleIncrementByte2 st =
     emit [Load PtrTy m_dataPtr ''current_ptr'',
           Load Int8Ty (Reg PtrTy ''current_ptr'') ''current_val'',
           Add (Reg Int8Ty ''current_val'') (ConstantInt Int8Ty 1) ''val_inc'' True True,
           Store (Reg Int8Ty ''val_inc'') (Reg PtrTy ''current_ptr'')] st"
  by (simp add: handleIncrementByte2_def builder_defs Insert_emit emit_emit Let_def)

lemma handleDecrementByte2_emit:
  "handleDecrementByte2 st =
     emit [Load PtrTy m_dataPtr ''current_ptr'',
           Load Int8Ty (Reg PtrTy ''current_ptr'') ''current_val'',
           Sub (Reg Int8Ty ''current_val'') (ConstantInt Int8Ty 1) ''val_dec'' True True,
           Store (Reg Int8Ty ''val_dec'') (Reg PtrTy ''current_ptr'')] st"
  by (simp add: handleDecrementByte2_def builder_defs Insert_emit emit_emit Let_def)

lemma handleOutput2_emit:
  "handleOutput2 st =
     emit [Load PtrTy m_dataPtr ''current_ptr'',
           Load Int8Ty (Reg PtrTy ''current_ptr'') ''output_val'',
           ZExt (Reg Int8Ty ''output_val'') Int32Ty ''output_int'',
           Call m_putcharFunc [Reg Int32Ty ''output_int''] []] st"
  by (simp add: handleOutput2_def builder_defs Insert_emit emit_emit Let_def)

lemma handleInput2_emit:
  "handleInput2 st =
     emit [Call m_getcharFunc [] ''input_char'',
           Trunc (Reg Int32Ty ''input_char'') Int8Ty ''input_byte'',
           Load PtrTy m_dataPtr ''current_ptr'',
           Store (Reg Int8Ty ''input_byte'') (Reg PtrTy ''current_ptr'')] st"
  by (simp add: handleInput2_def builder_defs Insert_emit emit_emit Let_def m_getcharFunc_def)


section \<open>Preparing the module\<close>

lemma emit_keeps:
  "m_memorySize (emit is st) = m_memorySize st"
  "m_enableOptimization (emit is st) = m_enableOptimization st"
  "m_enableDebugInfo (emit is st) = m_enableDebugInfo st"
  "m_statistics (emit is st) = m_statistics st"
  "m_functions (emit is st) = m_functions st"
  "m_insertPoint (emit is st) = m_insertPoint st"
  "m_mainFunction (emit is st) = m_mainFunction st"
  "m_diBuilder (emit is st) = m_diBuilder st"
  "m_loopStartBlocks (emit is st) = m_loopStartBlocks st"
  "m_loopEndBlocks (emit is st) = m_loopEndBlocks st"
  "m_currentIP (emit is st) = m_currentIP st"
  "m_stderr (emit is st) = m_stderr st"
  "length (m_blocks (emit is st)) = length (m_blocks st)"
  by (cases "m_insertPoint st"; simp add: emit_None emit_Some)+

lemma emit_blocks:
  "m_insertPoint st = Some b \<Longrightarrow> b < length (m_blocks st) \<Longrightarrow>
   m_blocks (emit is st) =
     (m_blocks st)[b := (m_blocks st ! b)\<lparr>bb_instrs := bb_instrs (m_blocks st ! b) @ is\<rparr>]"
  by (simp add: emit_Some)

lemma emit_blocks_case:
  "m_blocks (emit is st) =
     (case m_insertPoint st of
        None \<Rightarrow> m_blocks st
      | Some b \<Rightarrow> (m_blocks st)
          [b := (m_blocks st ! b)\<lparr>bb_instrs := bb_instrs (m_blocks st ! b) @ is\<rparr>])"
  by (simp add: emit_None emit_Some split: option.splits)

text \<open>The declaration that \<^verbatim>\<open>allocateMemory\<close> asks for: the list
  \<^verbatim>\<open>{ptr, i8}\<close> makes \<^verbatim>\<open>i8\<close> the type of the length.\<close>

lemma memset_declaration:
  "intrinsic_decl Intrinsic_memset [PtrTy, Int8Ty]
     = Func ''llvm.memset.p0.i8'' VoidTy [PtrTy, Int8Ty, Int8Ty, Int1Ty]"
  by simp

lemma getOrInsertDeclaration_emit:
  "snd (getOrInsertDeclaration iid tys (emit is st))
     = emit is (snd (getOrInsertDeclaration iid tys st))"
  "fst (getOrInsertDeclaration iid tys st) = intrinsic_decl iid tys"
  by (cases "m_insertPoint st"; simp add: getOrInsertDeclaration_def emit_None emit_Some Let_def)+

lemma allocateMemory_emit:
  "allocateMemory st =
     emit [Alloca (ArrayTy Int8Ty (m_memorySize st)) ''memory'',
           BitCast (Reg PtrTy ''memory'') Int8Ty [],
           Call (Func ''llvm.memset.p0.i8'' VoidTy [PtrTy, Int8Ty, Int8Ty, Int1Ty])
             [Reg Int8Ty [], ConstantInt Int8Ty 0,
              ConstantInt Int64Ty (int (m_memorySize st)), ConstantInt Int1Ty 0] [],
           Alloca Int8Ty ''dataptr'',
           GetElementPtr True Int8Ty (Reg PtrTy ''memory'')
             [ConstantInt Int32Ty 0, ConstantInt Int32Ty (int (m_memorySize st div 2))] ''initial_ptr'',
           Store (Reg PtrTy ''initial_ptr'') (Reg PtrTy ''dataptr'')]
       (snd (getOrInsertDeclaration Intrinsic_memset [PtrTy, Int8Ty] st))"
  unfolding allocateMemory_def Let_def builder_defs Insert_emit split_def fst_conv snd_conv
    operand_ty.simps getOrInsertDeclaration_emit emit_emit emit_keeps
  by (simp add: emit_emit)

lemma createMainFunction_eq:
  "createMainFunction st =
     st\<lparr>m_functions := m_functions st @ [Func ''main'' Int32Ty []],
        m_mainFunction := Some (length (m_functions st)),
        m_blocks := m_blocks st @
          [\<lparr>bb_name = entry, bb_parent = Some (length (m_functions st)), bb_instrs = []\<rparr>],
        m_insertPoint := Some (length (m_blocks st))\<rparr>"
  by (simp add: createMainFunction_def Function_Create_def BasicBlock_Create_def
      SetInsertPoint_def Let_def)

lemma prepare_blocks:
  "m_blocks (prepare st) = m_blocks st @
     [\<lparr>bb_name = entry, bb_parent = Some (length (m_functions st)),
       bb_instrs =
         [Alloca (ArrayTy Int8Ty (m_memorySize st)) ''memory'',
          BitCast (Reg PtrTy ''memory'') Int8Ty [],
          Call (Func ''llvm.memset.p0.i8'' VoidTy [PtrTy, Int8Ty, Int8Ty, Int1Ty])
            [Reg Int8Ty [], ConstantInt Int8Ty 0,
             ConstantInt Int64Ty (int (m_memorySize st)), ConstantInt Int1Ty 0] [],
          Alloca Int8Ty ''dataptr'',
          GetElementPtr True Int8Ty (Reg PtrTy ''memory'')
            [ConstantInt Int32Ty 0, ConstantInt Int32Ty (int (m_memorySize st div 2))] ''initial_ptr'',
          Store (Reg PtrTy ''initial_ptr'') (Reg PtrTy ''dataptr'')]\<rparr>]"
  by (simp add: prepare_def createMainFunction_eq allocateMemory_emit emit_Some
      getOrInsertDeclaration_def setupRuntimeFunctions_def Function_Create_def
      createDebugInfo_def Let_def)

lemma prepare_fields:
  "m_insertPoint (prepare st) = Some (length (m_blocks st))"
  "m_mainFunction (prepare st) = Some (length (m_functions st))"
  "m_statistics (prepare st) = Map.empty"
  "m_loopStartBlocks (prepare st) = m_loopStartBlocks st"
  "m_loopEndBlocks (prepare st) = m_loopEndBlocks st"
  "m_stderr (prepare st) = m_stderr st"
  "m_memorySize (prepare st) = m_memorySize st"
  by (simp_all add: prepare_def createMainFunction_eq allocateMemory_emit emit_Some
      getOrInsertDeclaration_def setupRuntimeFunctions_def Function_Create_def
      createDebugInfo_def Let_def)


section \<open>The loop handlers\<close>

lemma handleLoopStart_eq:
  assumes "m_insertPoint st = Some cur" "cur < length (m_blocks st)"
  shows "handleLoopStart ip st =
     st\<lparr>m_blocks :=
          (m_blocks st)[cur := (m_blocks st ! cur)
              \<lparr>bb_instrs := bb_instrs (m_blocks st ! cur) @ [Br (length (m_blocks st))]\<rparr>]
          @ [\<lparr>bb_name = loop_header ip, bb_parent = m_mainFunction st,
               bb_instrs =
                 [Load Int8Ty m_dataPtr ''current_ptr'',
                  Load Int8Ty (Reg Int8Ty ''current_ptr'') ''loop_val'',
                  ICmpEQ (Reg Int8Ty ''loop_val'') (ConstantInt Int8Ty 0) ''loop_cond'',
                  CondBr (Reg Int1Ty ''loop_cond'') (length (m_blocks st) + 2) (length (m_blocks st) + 1)]\<rparr>,
             \<lparr>bb_name = loop_body ip, bb_parent = m_mainFunction st, bb_instrs = []\<rparr>,
             \<lparr>bb_name = loop_end ip, bb_parent = m_mainFunction st, bb_instrs = []\<rparr>],
        m_insertPoint := Some (length (m_blocks st) + 1),
        m_loopStartBlocks := length (m_blocks st) # m_loopStartBlocks st,
        m_loopEndBlocks := (length (m_blocks st) + 2) # m_loopEndBlocks st\<rparr>"
  using assms
  by (simp add: handleLoopStart_def BasicBlock_Create_def SetInsertPoint_def Let_def builder_defs
      Insert_emit emit_Some nth_append list_update_append)

lemma handleLoopEnd_empty:
  "m_loopStartBlocks st = [] \<or> m_loopEndBlocks st = [] \<Longrightarrow>
   handleLoopEnd ip st = st\<lparr>m_stderr := m_stderr st @ [ExtraRightBracketAt ip]\<rparr>"
  by (simp add: handleLoopEnd_def reportError_def)

lemma handleLoopEnd_eq:
  assumes "m_loopStartBlocks st = h # hs" "m_loopEndBlocks st = e # es"
    and "m_insertPoint st = Some cur"
  shows "handleLoopEnd ip st =
     st\<lparr>m_blocks := (m_blocks st)[cur := (m_blocks st ! cur)
              \<lparr>bb_instrs := bb_instrs (m_blocks st ! cur) @ [Br h]\<rparr>],
        m_insertPoint := Some e,
        m_loopStartBlocks := hs,
        m_loopEndBlocks := es\<rparr>"
  using assms
  by (simp add: handleLoopEnd_def SetInsertPoint_def Let_def builder_defs Insert_emit emit_Some)

section \<open>Statistics\<close>

lemma is_instruction_iff: "is_instruction c \<longleftrightarrow> c \<in> set ''><+-.,[]''"
  by (auto simp add: is_instruction_def)

lemma handleLoopStart_keeps:
  "m_statistics (handleLoopStart ip st) = m_statistics st"
  "m_stderr (handleLoopStart ip st) = m_stderr st"
  "m_memorySize (handleLoopStart ip st) = m_memorySize st"
  "m_mainFunction (handleLoopStart ip st) = m_mainFunction st"
  "m_functions (handleLoopStart ip st) = m_functions st"
  by (simp_all add: handleLoopStart_def BasicBlock_Create_def SetInsertPoint_def Let_def builder_defs
      Insert_emit emit_keeps)

lemma handleLoopEnd_keeps:
  "m_statistics (handleLoopEnd ip st) = m_statistics st"
  "m_memorySize (handleLoopEnd ip st) = m_memorySize st"
  "m_mainFunction (handleLoopEnd ip st) = m_mainFunction st"
  "m_functions (handleLoopEnd ip st) = m_functions st"
  by (simp_all add: handleLoopEnd_def reportError_def SetInsertPoint_def Let_def builder_defs
      Insert_emit emit_keeps)

lemma generateIR_step_skip:
  "\<not> is_instruction c \<Longrightarrow> generateIR_step i c st = st\<lparr>m_currentIP := i\<rparr>"
  by (simp add: generateIR_step_def)

lemma generateIR_step_statistics:
  "m_statistics (generateIR_step i c st) =
     (if is_instruction c
      then (m_statistics st)(c \<mapsto> (case m_statistics st c of None \<Rightarrow> 0 | Some n \<Rightarrow> n) + 1)
      else m_statistics st)"
  by (simp add: generateIR_step_def Let_def count_instruction_def
      handleIncrementPtr_emit handleDecrementPtr_emit handleIncrementByte_emit
      handleDecrementByte_emit handleOutput_emit handleInput_emit emit_keeps
      handleLoopStart_keeps handleLoopEnd_keeps)

lemma generateIR_loop_statistics:
  "m_statistics (generateIR_loop i cs st) c =
     (if is_instruction c \<and> c \<in> set cs
      then Some ((case m_statistics st c of None \<Rightarrow> 0 | Some n \<Rightarrow> n) + count_list cs c)
      else m_statistics st c)"
proof (induction cs arbitrary: i st)
  case Nil
  then show ?case by simp
next
  case (Cons a cs)
  show ?case
    by (auto simp add: Cons.IH generateIR_step_statistics)
qed

lemma generateIR_statistics:
  "m_statistics (generateIR source st) c =
     (if is_instruction c \<and> c \<in> set source
      then Some ((case m_statistics st c of None \<Rightarrow> 0 | Some n \<Rightarrow> n) + count_list source c)
      else m_statistics st c)"
  by (simp add: generateIR_def Let_def CreateRet_def Insert_emit emit_keeps generateIR_loop_statistics)

lemma sum_count_filter:
  "(\<Sum>c \<in> {c. P c \<and> c \<in> set xs}. count_list xs c) = length (filter P xs)"
proof -
  have "(\<Sum>c \<in> set (filter P xs). count_list (filter P xs) c) = length (filter P xs)"
    by (rule sum_count_set) simp_all
  moreover have "set (filter P xs) = {c. P c \<and> c \<in> set xs}" by auto
  moreover have "\<And>c. count_list (filter P xs) c = (if P c then count_list xs c else 0)"
    by (induction xs) auto
  then have "\<And>c. c \<in> set (filter P xs) \<Longrightarrow> count_list (filter P xs) c = count_list xs c"
    by simp
  ultimately show ?thesis by (metis (no_types, lifting) sum.cong)
qed

text \<open>
  Claim C7. \<^verbatim>\<open>compile\<close> clears the statistics before it generates code. After
  \<^verbatim>\<open>generateIR\<close> the statistics map every character of the eight instructions
  that occurs in the source to its number of occurrences and has no other key; the
  sum of the counts is the number of instruction characters of the source; and a
  character outside the eight is skipped: the loop body changes nothing but the
  current position.
\<close>

theorem statistics_count_instructions:
  fixes st0 :: compiler
  defines "st \<equiv> prepare st0"
  shows "m_statistics (generateIR source st) =
           (\<lambda>c. if c \<in> set ''><+-.,[]'' \<and> c \<in> set source
                then Some (count_list source c) else None)
       \<and> (\<Sum>c \<in> dom (m_statistics (generateIR source st)).
             the (m_statistics (generateIR source st) c))
           = length (filter (\<lambda>c. c \<in> set ''><+-.,[]'') source)
       \<and> (\<forall>c i st'. c \<notin> set ''><+-.,[]'' \<longrightarrow>
             generateIR_step i c st' = st'\<lparr>m_currentIP := i\<rparr>)"
proof -
  have eq: "m_statistics (generateIR source st) =
           (\<lambda>c. if c \<in> set ''><+-.,[]'' \<and> c \<in> set source
                then Some (count_list source c) else None)"
    unfolding st_def by (intro ext) (simp add: generateIR_statistics is_instruction_iff prepare_fields)
  have dom: "dom (m_statistics (generateIR source st))
        = {c. c \<in> set ''><+-.,[]'' \<and> c \<in> set source}"
    unfolding eq by (auto split: if_splits)
  have "(\<Sum>c \<in> dom (m_statistics (generateIR source st)).
            the (m_statistics (generateIR source st) c))
      = (\<Sum>c \<in> {c. c \<in> set ''><+-.,[]'' \<and> c \<in> set source}. count_list source c)"
    unfolding dom by (rule sum.cong) (simp_all add: eq)
  then have total: "(\<Sum>c \<in> dom (m_statistics (generateIR source st)).
            the (m_statistics (generateIR source st) c))
         = length (filter (\<lambda>c. c \<in> set ''><+-.,[]'') source)"
    by (simp only: sum_count_filter)
  have skip: "\<forall>c i st'. c \<notin> set ''><+-.,[]'' \<longrightarrow>
             generateIR_step i c st' = st'\<lparr>m_currentIP := i\<rparr>"
    by (simp add: generateIR_step_skip is_instruction_iff)
  from eq total skip show ?thesis by blast
qed

theorem statistics_count_instructions_witness:
  "map (m_statistics (translate 4 ''+[+-]x'')) ''+-[]x.'' = [Some 2, Some 1, Some 1, Some 1, None, None]
   \<and> (\<Sum>c \<in> dom (m_statistics (translate 4 ''+[+-]x'')).
         the (m_statistics (translate 4 ''+[+-]x'') c)) = 5"
proof -
  note t = statistics_count_instructions[of "''+[+-]x''" "BrainfuckCompiler 4",
      folded translate_def]
  have "length (filter (\<lambda>c. c \<in> set ''><+-.,[]'') ''+[+-]x'') = 5"
    by simp
  then have "(\<Sum>c \<in> dom (m_statistics (translate 4 ''+[+-]x'')).
         the (m_statistics (translate 4 ''+[+-]x'') c)) = 5"
    using t[THEN conjunct2, THEN conjunct1] by (rule subst)
  moreover have "map (m_statistics (translate 4 ''+[+-]x'')) ''+-[]x.''
      = [Some 2, Some 1, Some 1, Some 1, None, None]"
    unfolding t[THEN conjunct1] by simp
  ultimately show ?thesis by blast
qed

section \<open>Invariants of the translation loop\<close>

lemma well_formed_iff:
  "well_formed st \<longleftrightarrow>
     (\<exists>b. m_insertPoint st = Some b \<and> b < length (m_blocks st)) \<and>
     list_all (\<lambda>h. h < length (m_blocks st)) (m_loopStartBlocks st) \<and>
     list_all (\<lambda>e. e < length (m_blocks st)) (m_loopEndBlocks st)"
  by (simp add: well_formed_def split: option.splits)

lemma well_formedD:
  "well_formed st \<Longrightarrow> \<exists>b. m_insertPoint st = Some b \<and> b < length (m_blocks st)"
  by (simp add: well_formed_iff)

lemma well_formed_emit: "well_formed st \<Longrightarrow> well_formed (emit is st)"
  by (simp add: well_formed_iff emit_keeps)

lemma well_formed_count: "well_formed (count_instruction c st) = well_formed st"
  by (simp add: well_formed_iff count_instruction_def)

lemma well_formed_currentIP: "well_formed (st\<lparr>m_currentIP := i\<rparr>) = well_formed st"
  by (simp add: well_formed_iff)

lemma well_formed_handleLoopStart:
  assumes "well_formed st"
  shows "well_formed (handleLoopStart ip st)"
proof -
  obtain b where b: "m_insertPoint st = Some b" "b < length (m_blocks st)"
    using well_formedD[OF assms] by blast
  show ?thesis
    using assms unfolding handleLoopStart_eq[OF b]
    by (auto simp add: well_formed_iff list_all_iff)
qed

lemma well_formed_handleLoopEnd:
  assumes "well_formed st"
  shows "well_formed (handleLoopEnd ip st)"
proof (cases "m_loopStartBlocks st = [] \<or> m_loopEndBlocks st = []")
  case True
  then show ?thesis
    using assms by (simp add: handleLoopEnd_empty well_formed_iff)
next
  case False
  then obtain h hs e es where s: "m_loopStartBlocks st = h # hs" "m_loopEndBlocks st = e # es"
    by (cases "m_loopStartBlocks st"; cases "m_loopEndBlocks st") auto
  obtain b where b: "m_insertPoint st = Some b" "b < length (m_blocks st)"
    using well_formedD[OF assms] by blast
  show ?thesis
    using assms s unfolding handleLoopEnd_eq[OF s b(1)]
    by (auto simp add: well_formed_iff list_all_iff)
qed

lemma well_formed_step: "well_formed st \<Longrightarrow> well_formed (generateIR_step i c st)"
  by (simp add: generateIR_step_def Let_def
      handleIncrementPtr_emit handleDecrementPtr_emit handleIncrementByte_emit
      handleDecrementByte_emit handleOutput_emit handleInput_emit
      well_formed_emit well_formed_count well_formed_currentIP
      well_formed_handleLoopStart well_formed_handleLoopEnd)

lemma well_formed_loop: "well_formed st \<Longrightarrow> well_formed (generateIR_loop i cs st)"
  by (induction cs arbitrary: i st) (simp_all add: well_formed_step)

lemma well_formed_prepare:
  "m_loopStartBlocks st = [] \<Longrightarrow> m_loopEndBlocks st = [] \<Longrightarrow> well_formed (prepare st)"
  by (simp add: well_formed_iff prepare_fields prepare_blocks)

text \<open>The loop stacks while a piece of source is translated.\<close>

lemma simple_step_keeps:
  assumes "c \<noteq> CHR ''[''" "c \<noteq> CHR '']''"
  shows "m_loopStartBlocks (generateIR_step i c st) = m_loopStartBlocks st"
    and "m_loopEndBlocks (generateIR_step i c st) = m_loopEndBlocks st"
    and "m_stderr (generateIR_step i c st) = m_stderr st"
  using assms
  by (simp_all add: generateIR_step_def Let_def count_instruction_def
      handleIncrementPtr_emit handleDecrementPtr_emit handleIncrementByte_emit
      handleDecrementByte_emit handleOutput_emit handleInput_emit emit_keeps)

lemma open_step:
  "generateIR_step i CHR ''['' st =
     handleLoopStart i (count_instruction CHR ''['' (st\<lparr>m_currentIP := i\<rparr>))"
  by (simp add: generateIR_step_def Let_def is_instruction_def)

lemma close_step:
  "generateIR_step i CHR '']'' st =
     handleLoopEnd i (count_instruction CHR '']'' (st\<lparr>m_currentIP := i\<rparr>))"
  by (simp add: generateIR_step_def Let_def is_instruction_def)

lemma handleLoopStart_stacks:
  "m_loopStartBlocks (handleLoopStart ip st) = length (m_blocks st) # m_loopStartBlocks st"
  "m_loopEndBlocks (handleLoopStart ip st) = (length (m_blocks st) + 2) # m_loopEndBlocks st"
  by (simp_all add: handleLoopStart_def BasicBlock_Create_def SetInsertPoint_def Let_def builder_defs
      Insert_emit emit_keeps)

lemma handleLoopEnd_stacks:
  assumes "m_loopStartBlocks st \<noteq> []" "m_loopEndBlocks st \<noteq> []"
  shows "m_loopStartBlocks (handleLoopEnd ip st) = tl (m_loopStartBlocks st)"
    and "m_loopEndBlocks (handleLoopEnd ip st) = tl (m_loopEndBlocks st)"
    and "m_stderr (handleLoopEnd ip st) = m_stderr st"
  using assms
  by (simp_all add: handleLoopEnd_def SetInsertPoint_def Let_def builder_defs Insert_emit emit_keeps)

lemma balanced_translation:
  assumes "checkBrackets_loop (int k) cs = Passed"
    and "k \<le> length (m_loopStartBlocks st)" "k \<le> length (m_loopEndBlocks st)"
  shows "m_stderr (generateIR_loop i cs st) = m_stderr st
       \<and> m_loopStartBlocks (generateIR_loop i cs st) = drop k (m_loopStartBlocks st)
       \<and> m_loopEndBlocks (generateIR_loop i cs st) = drop k (m_loopEndBlocks st)"
  using assms
proof (induction cs arbitrary: k st i)
  case Nil
  then show ?case by (simp split: if_splits)
next
  case (Cons c cs)
  show ?case
  proof (cases "c = CHR ''[''")
    case True
    let ?st1 = "generateIR_step i c st"
    have p: "checkBrackets_loop (int (Suc k)) cs = Passed"
      using Cons.prems(1) True by (simp split: if_splits add: add.commute)
    have s: "m_loopStartBlocks ?st1 = length (m_blocks st) # m_loopStartBlocks st"
         "m_loopEndBlocks ?st1 = (length (m_blocks st) + 2) # m_loopEndBlocks st"
         "m_stderr ?st1 = m_stderr st"
      using True
      by (simp_all add: open_step handleLoopStart_stacks handleLoopStart_keeps count_instruction_def)
    have "Suc k \<le> length (m_loopStartBlocks ?st1)" "Suc k \<le> length (m_loopEndBlocks ?st1)"
      using Cons.prems(2,3) s by simp_all
    from Cons.IH[OF p this, of "Suc i"] show ?thesis
      by (simp add: s)
  next
    case False
    note nopen = this
    show ?thesis
    proof (cases "c = CHR '']''")
      case True
      let ?st0 = "count_instruction CHR '']'' (st\<lparr>m_currentIP := i\<rparr>)"
      let ?st1 = "generateIR_step i c st"
      have k: "0 < k" and p: "checkBrackets_loop (int (k - 1)) cs = Passed"
        using Cons.prems(1) True by (simp_all split: if_splits add: of_nat_diff)
      have ne: "m_loopStartBlocks ?st0 \<noteq> []" "m_loopEndBlocks ?st0 \<noteq> []"
        using k Cons.prems(2,3) by (auto simp add: count_instruction_def)
      have s: "m_loopStartBlocks ?st1 = tl (m_loopStartBlocks st)"
         "m_loopEndBlocks ?st1 = tl (m_loopEndBlocks st)"
         "m_stderr ?st1 = m_stderr st"
        using True handleLoopEnd_stacks[OF ne, of i]
        by (simp_all add: close_step) (simp_all add: count_instruction_def)
      have "k - 1 \<le> length (m_loopStartBlocks ?st1)" "k - 1 \<le> length (m_loopEndBlocks ?st1)"
        using Cons.prems(2,3) s by simp_all
      from Cons.IH[OF p this, of "Suc i"] show ?thesis
        using k by (simp add: s drop_Suc[symmetric])
    next
      case False
      let ?st1 = "generateIR_step i c st"
      have p: "checkBrackets_loop (int k) cs = Passed"
        using Cons.prems(1) False nopen by simp
      note s = simple_step_keeps[OF nopen False, of i st]
      have "k \<le> length (m_loopStartBlocks ?st1)" "k \<le> length (m_loopEndBlocks ?st1)"
        using Cons.prems(2,3) s by simp_all
      from Cons.IH[OF p this, of "Suc i"] show ?thesis
        by (simp add: s)
    qed
  qed
qed

section \<open>Translating a given source\<close>

lemma prepare_BrainfuckCompiler:
  "prepare (BrainfuckCompiler N) =
     \<lparr> m_memorySize = N, m_enableOptimization = True, m_enableDebugInfo = False,
       m_statistics = Map.empty,
       m_functions =
         [Func ''main'' Int32Ty [],
          Func ''llvm.memset.p0.i8'' VoidTy [PtrTy, Int8Ty, Int8Ty, Int1Ty],
          Func ''putchar'' Int32Ty [Int32Ty], Func ''getchar'' Int32Ty []],
       m_blocks = [\<lparr>bb_name = entry, bb_parent = Some 0,
         bb_instrs =
           [Alloca (ArrayTy Int8Ty N) ''memory'',
            BitCast (Reg PtrTy ''memory'') Int8Ty [],
            Call (Func ''llvm.memset.p0.i8'' VoidTy [PtrTy, Int8Ty, Int8Ty, Int1Ty])
              [Reg Int8Ty [], ConstantInt Int8Ty 0, ConstantInt Int64Ty (int N),
               ConstantInt Int1Ty 0] [],
            Alloca Int8Ty ''dataptr'',
            GetElementPtr True Int8Ty (Reg PtrTy ''memory'')
              [ConstantInt Int32Ty 0, ConstantInt Int32Ty (int (N div 2))] ''initial_ptr'',
            Store (Reg PtrTy ''initial_ptr'') (Reg PtrTy ''dataptr'')]\<rparr>],
       m_insertPoint = Some 0,
       m_mainFunction = Some 0, m_diBuilder = False, m_loopStartBlocks = [],
       m_loopEndBlocks = [], m_currentIP = 0, m_stderr = [] \<rparr>"
  by (simp add: prepare_def BrainfuckCompiler_def createMainFunction_eq allocateMemory_emit emit_Some
      getOrInsertDeclaration_def setupRuntimeFunctions_def Function_Create_def
      createDebugInfo_def Let_def)


lemma generateIR_eq:
  "generateIR source st = emit [Ret (ConstantInt Int32Ty 0)] (generateIR_loop 0 source (st\<lparr>m_currentIP := 0\<rparr>))"
  by (simp add: generateIR_def Let_def CreateRet_def Insert_emit)


section \<open>A closing bracket with no open loop\<close>


lemma compile_Failed:
  "checkBrackets source = Failed msg \<Longrightarrow>
   compile be source outputFile enableJIT st = Some (False, st\<lparr>m_stderr := m_stderr st @ [msg]\<rparr>)"
  by (simp add: compile_def reportError_def)

lemma compile_success:
  "compile be source outputFile enableJIT st = Some (True, r) \<Longrightarrow> checkBrackets source = Passed"
  by (simp add: compile_def split: check.splits if_splits)




section \<open>The order of the steps of compile\<close>

lemma compile_Passed:
  "checkBrackets source = Passed \<Longrightarrow>
   compile be source outputFile enableJIT st =
     (let st1 = generateIR source (prepare st) in
      if verifyModule be st1 then Some (False, reportError GeneratedIRInvalid st1)
      else
        let st2 = (if m_enableOptimization st1 then optimizeModule be st1 else st1);
            st3 = (if enableJIT then executeJIT be st2 else emitObjectFile be outputFile st2)
        in Some (True, st3))"
  by (simp add: compile_def)

text \<open>
  Claim C5. \<^verbatim>\<open>compile\<close> calls \<^verbatim>\<open>checkBrackets\<close> first. When the check fails,
  \<^verbatim>\<open>compile\<close> returns \<^verbatim>\<open>false\<close> and the compiler object is as before but for
  the reported message: no function, block or instruction has been created and the
  statistics are untouched. \<^verbatim>\<open>compile\<close> returns \<^verbatim>\<open>true\<close> only for a source
  that passed the check, and for such a source its result is that of the steps
  after the check.
\<close>

theorem validation_before_generation:
  "(checkBrackets source = Failed msg \<longrightarrow>
      compile be source outputFile enableJIT st
        = Some (False, st\<lparr>m_stderr := m_stderr st @ [msg]\<rparr>))
   \<and> (\<forall>st'. compile be source outputFile enableJIT st = Some (True, st') \<longrightarrow>
          checkBrackets source = Passed)
   \<and> (checkBrackets source = Passed \<longrightarrow>
        (\<exists>ok st'. compile be source outputFile enableJIT st = Some (ok, st') \<and>
           (if verifyModule be (generateIR source (prepare st))
            then \<not> ok \<and> st' = reportError GeneratedIRInvalid (generateIR source (prepare st))
            else ok)))"
proof -
  have "checkBrackets source = Passed \<longrightarrow>
        (\<exists>ok st'. compile be source outputFile enableJIT st = Some (ok, st') \<and>
           (if verifyModule be (generateIR source (prepare st))
            then \<not> ok \<and> st' = reportError GeneratedIRInvalid (generateIR source (prepare st))
            else ok))"
    by (auto simp add: compile_Passed Let_def)
  then show ?thesis
    using compile_Failed[of source msg be outputFile enableJIT st]
      compile_success[of be source outputFile enableJIT st]
    by blast
qed

theorem validation_before_generation_witness:
  "compile \<lparr>verifyModule = (\<lambda>st. False), optimizeModule = (\<lambda>st. st),
            executeJIT = (\<lambda>st. st), emitObjectFile = (\<lambda>f st. st)\<rparr>
      ''+++[>+++<-]++]'' ''a.out'' False (BrainfuckCompiler 30000)
    = Some (False, (BrainfuckCompiler 30000)\<lparr>m_stderr := [ExtraRightBracket]\<rparr>)
   \<and> (\<exists>st'. compile \<lparr>verifyModule = (\<lambda>st. False), optimizeModule = (\<lambda>st. st),
            executeJIT = (\<lambda>st. st), emitObjectFile = (\<lambda>f st. st)\<rparr>
      ''[-]'' ''a.out'' False (BrainfuckCompiler 30000) = Some (True, st'))"
proof -
  have f: "checkBrackets ''+++[>+++<-]++]'' = Failed ExtraRightBracket"
    and p: "checkBrackets ''[-]'' = Passed"
    by (simp_all add: checkBrackets_def)
  have e: "m_stderr (BrainfuckCompiler 30000) = []"
    by (simp add: BrainfuckCompiler_def)
  let ?be = "\<lparr>verifyModule = (\<lambda>st. False), optimizeModule = (\<lambda>st. st),
            executeJIT = (\<lambda>st. st), emitObjectFile = (\<lambda>f st. st)\<rparr>"
  show ?thesis
    using validation_before_generation[of "''+++[>+++<-]++]''" ExtraRightBracket ?be "''a.out''" False
        "BrainfuckCompiler 30000"]
      validation_before_generation[of "''[-]''" ExtraRightBracket ?be "''a.out''" False
        "BrainfuckCompiler 30000"]
    unfolding f p e by auto
qed


section \<open>The builder only appends\<close>

lemma extends_iff:
  "extends st st' \<longleftrightarrow>
     length (m_blocks st) \<le> length (m_blocks st') \<and>
     (\<forall>j < length (m_blocks st). prefix (bb_instrs (m_blocks st ! j)) (bb_instrs (m_blocks st' ! j)))"
  by (auto simp add: extends_def list_all_iff)

lemma extends_refl: "extends st st"
  by (simp add: extends_iff)

lemma extends_trans: "extends st1 st2 \<Longrightarrow> extends st2 st3 \<Longrightarrow> extends st1 st3"
  unfolding extends_iff
  by (meson less_le_trans order_trans prefix_order.trans)

lemma extends_same_blocks: "m_blocks st' = m_blocks st \<Longrightarrow> extends st st'"
  by (simp add: extends_iff)

lemma extends_emit: "extends st (emit is st)"
proof (cases "m_insertPoint st")
  case None
  then show ?thesis by (simp add: emit_None extends_refl)
next
  case (Some b)
  have "prefix (bb_instrs (m_blocks st ! j))
          (bb_instrs ((m_blocks st)
             [b := (m_blocks st ! b)\<lparr>bb_instrs := bb_instrs (m_blocks st ! b) @ is\<rparr>] ! j))"
    if "j < length (m_blocks st)" for j
    using that by (cases "j = b") simp_all
  then show ?thesis
    unfolding extends_iff emit_Some[OF Some] by simp
qed

lemma extends_new_blocks: "extends st (st\<lparr>m_blocks := m_blocks st @ new\<rparr>)"
  by (simp add: extends_iff nth_append)

lemma extends_handleLoopStart: "extends st (handleLoopStart ip st)"
proof -
  define st1 where "st1 = st\<lparr>m_blocks := m_blocks st @
      [\<lparr>bb_name = loop_header ip, bb_parent = m_mainFunction st, bb_instrs = []\<rparr>,
       \<lparr>bb_name = loop_body ip, bb_parent = m_mainFunction st, bb_instrs = []\<rparr>,
       \<lparr>bb_name = loop_end ip, bb_parent = m_mainFunction st, bb_instrs = []\<rparr>]\<rparr>"
  define st2 where "st2 = emit [Br (length (m_blocks st))] st1"
  define st3 where "st3 = st2\<lparr>m_insertPoint := Some (length (m_blocks st))\<rparr>"
  define st4 where "st4 = emit [Load Int8Ty m_dataPtr ''current_ptr'',
                      Load Int8Ty (Reg Int8Ty ''current_ptr'') ''loop_val'',
                      ICmpEQ (Reg Int8Ty ''loop_val'') (ConstantInt Int8Ty 0) ''loop_cond'',
                      CondBr (Reg Int1Ty ''loop_cond'') (length (m_blocks st) + 2) (length (m_blocks st) + 1)] st3"
  have "handleLoopStart ip st =
      st4\<lparr>m_insertPoint := Some (length (m_blocks st) + 1),
          m_loopStartBlocks := length (m_blocks st) # m_loopStartBlocks st4,
          m_loopEndBlocks := (length (m_blocks st) + 2) # m_loopEndBlocks st4\<rparr>"
    by (simp add: handleLoopStart_def BasicBlock_Create_def SetInsertPoint_def Let_def builder_defs
        Insert_emit emit_emit emit_keeps st4_def st3_def st2_def st1_def)
  then have "extends st4 (handleLoopStart ip st)"
    by (simp add: extends_same_blocks)
  moreover have "extends st3 st4" unfolding st4_def by (rule extends_emit)
  moreover have "extends st2 st3" unfolding st3_def by (simp add: extends_same_blocks)
  moreover have "extends st1 st2" unfolding st2_def by (rule extends_emit)
  moreover have "extends st st1" unfolding st1_def by (rule extends_new_blocks)
  ultimately show ?thesis
    by (meson extends_trans)
qed

lemma extends_handleLoopEnd: "extends st (handleLoopEnd ip st)"
proof (cases "m_loopStartBlocks st = [] \<or> m_loopEndBlocks st = []")
  case True
  then show ?thesis
    by (simp add: handleLoopEnd_empty extends_same_blocks)
next
  case False
  define st1 where "st1 = st\<lparr>m_loopStartBlocks := tl (m_loopStartBlocks st),
                     m_loopEndBlocks := tl (m_loopEndBlocks st)\<rparr>"
  define st2 where "st2 = emit [Br (hd (m_loopStartBlocks st))] st1"
  have "handleLoopEnd ip st = st2\<lparr>m_insertPoint := Some (hd (m_loopEndBlocks st))\<rparr>"
    using False
    by (simp add: handleLoopEnd_def SetInsertPoint_def Let_def builder_defs Insert_emit st2_def st1_def)
  then have "extends st2 (handleLoopEnd ip st)"
    by (simp add: extends_same_blocks)
  moreover have "extends st1 st2" unfolding st2_def by (rule extends_emit)
  moreover have "extends st st1" unfolding st1_def by (simp add: extends_same_blocks)
  ultimately show ?thesis
    by (meson extends_trans)
qed

lemma extends_step: "extends st (generateIR_step i c st)"
proof -
  let ?st0 = "count_instruction c (st\<lparr>m_currentIP := i\<rparr>)"
  have 0: "extends st ?st0" "extends st (st\<lparr>m_currentIP := i\<rparr>)"
    by (simp_all add: extends_same_blocks count_instruction_def)
  have "extends ?st0 (generateIR_step i c st) \<or> generateIR_step i c st = st\<lparr>m_currentIP := i\<rparr>
      \<or> generateIR_step i c st = ?st0"
    by (simp add: generateIR_step_def Let_def
        handleIncrementPtr_emit handleDecrementPtr_emit handleIncrementByte_emit
        handleDecrementByte_emit handleOutput_emit handleInput_emit
        extends_emit extends_handleLoopStart extends_handleLoopEnd)
  then show ?thesis
    using 0 extends_trans by metis
qed

lemma extends_loop: "extends st (generateIR_loop i cs st)"
proof (induction cs arbitrary: i st)
  case Nil
  show ?case by (simp add: extends_refl)
next
  case (Cons c cs)
  show ?case
    using extends_step[of st i c] Cons.IH[where i = "Suc i" and st = "generateIR_step i c st"]
    by (simp add: extends_trans)
qed

lemma extends_generateIR: "extends st (generateIR source st)"
proof -
  have "extends st (st\<lparr>m_currentIP := 0\<rparr>)"
    by (simp add: extends_same_blocks)
  then show ?thesis
    unfolding generateIR_eq
    using extends_loop extends_emit extends_trans by blast
qed


section \<open>The blocks of a loop\<close>

lemma generateIR_loop_append:
  "generateIR_loop i (xs @ ys) st = generateIR_loop (i + length xs) ys (generateIR_loop i xs st)"
  by (induction xs arbitrary: i st) simp_all

lemma simple_step_blocks:
  assumes "c \<noteq> CHR ''[''" "c \<noteq> CHR '']''" "m_insertPoint st = Some b"
  shows "m_insertPoint (generateIR_step i c st) = Some b"
    and "length (m_blocks (generateIR_step i c st)) = length (m_blocks st)"
    and "j \<noteq> b \<Longrightarrow> m_blocks (generateIR_step i c st) ! j = m_blocks st ! j"
  using assms
  by (simp_all add: generateIR_step_def Let_def count_instruction_def
      handleIncrementPtr_emit handleDecrementPtr_emit handleIncrementByte_emit
      handleDecrementByte_emit handleOutput_emit handleInput_emit emit_keeps emit_blocks_case)

lemma open_step_blocks:
  assumes "m_insertPoint st = Some b" "b < length (m_blocks st)"
  shows "m_insertPoint (generateIR_step i CHR ''['' st) = Some (length (m_blocks st) + 1)"
    and "length (m_blocks (generateIR_step i CHR ''['' st)) = length (m_blocks st) + 3"
    and "j < length (m_blocks st) \<Longrightarrow> j \<noteq> b \<Longrightarrow>
           m_blocks (generateIR_step i CHR ''['' st) ! j = m_blocks st ! j"
    and "m_loopEndBlocks (generateIR_step i CHR ''['' st)
           = (length (m_blocks st) + 2) # m_loopEndBlocks st"
    and "m_loopStartBlocks (generateIR_step i CHR ''['' st)
           = length (m_blocks st) # m_loopStartBlocks st"
proof -
  let ?st0 = "count_instruction CHR ''['' (st\<lparr>m_currentIP := i\<rparr>)"
  have b: "m_insertPoint ?st0 = Some b" "b < length (m_blocks ?st0)"
    using assms by (simp_all add: count_instruction_def)
  note eq = handleLoopStart_eq[OF b, of i]
  show "m_insertPoint (generateIR_step i CHR ''['' st) = Some (length (m_blocks st) + 1)"
    unfolding open_step eq by (simp add: count_instruction_def)
  show "length (m_blocks (generateIR_step i CHR ''['' st)) = length (m_blocks st) + 3"
    unfolding open_step eq by (simp add: count_instruction_def)
  show "j < length (m_blocks st) \<Longrightarrow> j \<noteq> b \<Longrightarrow>
           m_blocks (generateIR_step i CHR ''['' st) ! j = m_blocks st ! j"
    unfolding open_step eq by (simp add: count_instruction_def nth_append)
  show "m_loopEndBlocks (generateIR_step i CHR ''['' st)
           = (length (m_blocks st) + 2) # m_loopEndBlocks st"
    unfolding open_step eq by (simp add: count_instruction_def)
  show "m_loopStartBlocks (generateIR_step i CHR ''['' st)
           = length (m_blocks st) # m_loopStartBlocks st"
    unfolding open_step eq by (simp add: count_instruction_def)
qed

lemma close_step_blocks:
  assumes "m_insertPoint st = Some b"
    and "m_loopStartBlocks st = h # hs" "m_loopEndBlocks st = e # es"
  shows "m_insertPoint (generateIR_step i CHR '']'' st) = Some e"
    and "m_blocks (generateIR_step i CHR '']'' st)
           = (m_blocks st)[b := (m_blocks st ! b)\<lparr>bb_instrs := bb_instrs (m_blocks st ! b) @ [Br h]\<rparr>]"
    and "m_loopEndBlocks (generateIR_step i CHR '']'' st) = es"
    and "m_loopStartBlocks (generateIR_step i CHR '']'' st) = hs"
proof -
  let ?st0 = "count_instruction CHR '']'' (st\<lparr>m_currentIP := i\<rparr>)"
  have s: "m_loopStartBlocks ?st0 = h # hs" "m_loopEndBlocks ?st0 = e # es"
    and b: "m_insertPoint ?st0 = Some b"
    using assms by (simp_all add: count_instruction_def)
  note eq = handleLoopEnd_eq[OF s b, of i]
  show "m_insertPoint (generateIR_step i CHR '']'' st) = Some e"
    unfolding close_step eq by simp
  show "m_blocks (generateIR_step i CHR '']'' st)
           = (m_blocks st)[b := (m_blocks st ! b)\<lparr>bb_instrs := bb_instrs (m_blocks st ! b) @ [Br h]\<rparr>]"
    unfolding close_step eq by (simp add: count_instruction_def)
  show "m_loopEndBlocks (generateIR_step i CHR '']'' st) = es"
    unfolding close_step eq by simp
  show "m_loopStartBlocks (generateIR_step i CHR '']'' st) = hs"
    unfolding close_step eq by simp
qed

lemma translation_frame:
  assumes "checkBrackets_loop (int k) cs = Passed"
    and "well_formed st" "L \<le> length (m_blocks st)"
    and "m_insertPoint st = Some b" "b = p \<or> L \<le> b"
    and "k \<le> length (m_loopStartBlocks st)" "k \<le> length (m_loopEndBlocks st)"
    and "list_all (\<lambda>e. L \<le> e) (take k (m_loopEndBlocks st))"
  shows "(\<forall>j < L. j \<noteq> p \<longrightarrow> m_blocks (generateIR_loop i cs st) ! j = m_blocks st ! j)
       \<and> (\<exists>b'. m_insertPoint (generateIR_loop i cs st) = Some b' \<and> (b' = p \<or> L \<le> b'))"
  using assms
proof (induction cs arbitrary: k st i b)
  case Nil
  then show ?case by simp
next
  case (Cons c cs)
  let ?st1 = "generateIR_step i c st"
  have wf1: "well_formed ?st1"
    using Cons.prems(2) by (rule well_formed_step)
  have blt: "b < length (m_blocks st)"
    using Cons.prems(2,4) by (simp add: well_formed_iff)
  show ?case
  proof (cases "c = CHR ''[''")
    case True
    note o = open_step_blocks[OF Cons.prems(4) blt, where i = i]
    have p: "checkBrackets_loop (int (Suc k)) cs = Passed"
      using Cons.prems(1) True by (simp split: if_splits add: add.commute)
    have 1: "L \<le> length (m_blocks ?st1)"
      using Cons.prems(3) True o(2) by simp
    have 2: "m_insertPoint ?st1 = Some (length (m_blocks st) + 1)"
      using True o(1) by simp
    have 3: "length (m_blocks st) + 1 = p \<or> L \<le> length (m_blocks st) + 1"
      using Cons.prems(3) by simp
    have 4: "Suc k \<le> length (m_loopStartBlocks ?st1)" "Suc k \<le> length (m_loopEndBlocks ?st1)"
      using Cons.prems(6,7) True o(4,5) by simp_all
    have 5: "list_all (\<lambda>e. L \<le> e) (take (Suc k) (m_loopEndBlocks ?st1))"
      using Cons.prems(3,8) True o(4) by simp
    have same: "\<forall>j < L. j \<noteq> p \<longrightarrow> m_blocks ?st1 ! j = m_blocks st ! j"
      using o(3) True Cons.prems(3,5) by auto
    from Cons.IH[OF p wf1 1 2 3 4 5, of "Suc i"] same show ?thesis
      by simp
  next
    case False
    note nopen = this
    show ?thesis
    proof (cases "c = CHR '']''")
      case True
      have k: "0 < k" and p: "checkBrackets_loop (int (k - 1)) cs = Passed"
        using Cons.prems(1) True by (simp_all split: if_splits add: of_nat_diff)
      obtain h hs e es where s: "m_loopStartBlocks st = h # hs" "m_loopEndBlocks st = e # es"
        using k Cons.prems(6,7)
        by (cases "m_loopStartBlocks st"; cases "m_loopEndBlocks st") auto
      note cl = close_step_blocks[OF Cons.prems(4) s, where i = i]
      have 1: "L \<le> length (m_blocks ?st1)"
        using Cons.prems(3) True cl(2) by simp
      have 2: "m_insertPoint ?st1 = Some e"
        using True cl(1) by simp
      have tk: "take k (e # es) = e # take (k - 1) es"
        using k by (cases k) simp_all
      have 3: "e = p \<or> L \<le> e"
        using Cons.prems(8) s tk by simp
      have 4: "k - 1 \<le> length (m_loopStartBlocks ?st1)" "k - 1 \<le> length (m_loopEndBlocks ?st1)"
        using Cons.prems(6,7) True cl(3,4) s by simp_all
      have 5: "list_all (\<lambda>e. L \<le> e) (take (k - 1) (m_loopEndBlocks ?st1))"
        using Cons.prems(8) True cl(3) s tk by simp
      have same: "\<forall>j < L. j \<noteq> p \<longrightarrow> m_blocks ?st1 ! j = m_blocks st ! j"
        using cl(2) True Cons.prems(5) by auto
      from Cons.IH[OF p wf1 1 2 3 4 5, of "Suc i"] same show ?thesis
        by simp
    next
      case False
      note sb = simple_step_blocks[OF nopen False Cons.prems(4), where i = i]
      note sk = simple_step_keeps[OF nopen False, of i st]
      have p: "checkBrackets_loop (int k) cs = Passed"
        using Cons.prems(1) False nopen by simp
      have 1: "L \<le> length (m_blocks ?st1)"
        using Cons.prems(3) sb(2) by simp
      have 4: "k \<le> length (m_loopStartBlocks ?st1)" "k \<le> length (m_loopEndBlocks ?st1)"
        using Cons.prems(6,7) sk by simp_all
      have 5: "list_all (\<lambda>e. L \<le> e) (take k (m_loopEndBlocks ?st1))"
        using Cons.prems(8) sk by simp
      have same: "\<forall>j < L. j \<noteq> p \<longrightarrow> m_blocks ?st1 ! j = m_blocks st ! j"
        using sb(3) Cons.prems(5) by auto
      from Cons.IH[OF p wf1 1 sb(1) Cons.prems(5) 4 5, of "Suc i"] same show ?thesis
        by simp
    qed
  qed
qed

lemma map_name_update:
  "map bb_name (xs[b := (xs ! b)\<lparr>bb_instrs := is\<rparr>]) = map bb_name xs"
proof (cases "b < length xs")
  case True
  have "(map bb_name xs)[b := map bb_name xs ! b] = map bb_name xs"
    by (rule list_update_id)
  then show ?thesis
    using True by (simp add: map_update)
next
  case False
  then show ?thesis by (simp add: list_update_beyond)
qed

lemma step_names:
  assumes "well_formed st"
  shows "prefix (map bb_name (m_blocks st)) (map bb_name (m_blocks (generateIR_step i c st)))"
proof -
  obtain b where b: "m_insertPoint st = Some b" "b < length (m_blocks st)"
    using well_formedD[OF assms] by blast
  show ?thesis
  proof (cases "c = CHR ''[''")
    case True
    let ?st0 = "count_instruction CHR ''['' (st\<lparr>m_currentIP := i\<rparr>)"
    have b0: "m_insertPoint ?st0 = Some b" "b < length (m_blocks ?st0)"
      using b by (simp_all add: count_instruction_def)
    show ?thesis
      unfolding True open_step handleLoopStart_eq[OF b0]
      by (simp add: count_instruction_def map_name_update)
  next
    case False
    note nopen = this
    show ?thesis
    proof (cases "c = CHR '']''")
      case True
      show ?thesis
      proof (cases "m_loopStartBlocks st = [] \<or> m_loopEndBlocks st = []")
        case True
        then show ?thesis
          unfolding \<open>c = CHR '']''\<close> close_step
          by (subst handleLoopEnd_empty) (simp_all add: count_instruction_def)
      next
        case False
        then obtain h hs e es where s: "m_loopStartBlocks st = h # hs" "m_loopEndBlocks st = e # es"
          by (cases "m_loopStartBlocks st"; cases "m_loopEndBlocks st") auto
        show ?thesis
          unfolding True close_step_blocks(2)[OF b(1) s] by (simp add: map_name_update)
      qed
    next
      case False
      have "map bb_name (m_blocks (generateIR_step i c st)) = map bb_name (m_blocks st)"
        using nopen False b
        by (simp add: generateIR_step_def Let_def count_instruction_def
            handleIncrementPtr_emit handleDecrementPtr_emit handleIncrementByte_emit
            handleDecrementByte_emit handleOutput_emit handleInput_emit emit_blocks_case
            map_name_update)
      then show ?thesis by simp
    qed
  qed
qed

lemma loop_names:
  "well_formed st \<Longrightarrow>
   prefix (map bb_name (m_blocks st)) (map bb_name (m_blocks (generateIR_loop i cs st)))"
proof (induction cs arbitrary: i st)
  case Nil
  show ?case by simp
next
  case (Cons c cs)
  have "prefix (map bb_name (m_blocks (generateIR_step i c st)))
          (map bb_name (m_blocks (generateIR_loop (Suc i) cs (generateIR_step i c st))))"
    using Cons.prems by (intro Cons.IH well_formed_step)
  with step_names[OF Cons.prems, of i c] show ?case
    by (simp add: prefix_order.trans)
qed

lemma loop_name_kept:
  assumes "well_formed st" "j < length (m_blocks st)"
  shows "bb_name (m_blocks (generateIR_loop i cs st) ! j) = bb_name (m_blocks st ! j)"
proof -
  obtain new where n: "map bb_name (m_blocks (generateIR_loop i cs st)) = map bb_name (m_blocks st) @ new"
    using loop_names[OF assms(1), of i cs] by (auto simp add: prefix_def)
  have "j < length (m_blocks (generateIR_loop i cs st))"
    using arg_cong[OF n, of length] assms(2) by simp
  then have "bb_name (m_blocks (generateIR_loop i cs st) ! j)
      = map bb_name (m_blocks (generateIR_loop i cs st)) ! j"
    by simp
  also have "\<dots> = bb_name (m_blocks st ! j)"
    unfolding n using assms(2) by (simp add: nth_append)
  finally show ?thesis .
qed

lemma loop_blocks:
  fixes i :: nat
  assumes wf: "well_formed st" and cur: "m_insertPoint st = Some cur"
    and body: "checkBrackets body = Passed"
  defines "h \<equiv> length (m_blocks st)"
  defines "st3 \<equiv> generateIR_loop i (CHR ''['' # body @ [CHR '']'']) st"
  shows "m_blocks st3 ! h =
           \<lparr>bb_name = loop_header i, bb_parent = m_mainFunction st,
            bb_instrs =
              [Load Int8Ty m_dataPtr ''current_ptr'',
               Load Int8Ty (Reg Int8Ty ''current_ptr'') ''loop_val'',
               ICmpEQ (Reg Int8Ty ''loop_val'') (ConstantInt Int8Ty 0) ''loop_cond'',
               CondBr (Reg Int1Ty ''loop_cond'') (h + 2) (h + 1)]\<rparr>"
    and "m_blocks st3 ! (h + 2) = \<lparr>bb_name = loop_end i, bb_parent = m_mainFunction st, bb_instrs = []\<rparr>"
    and "bb_name (m_blocks st3 ! (h + 1)) = loop_body i"
    and "m_blocks st3 ! cur = (m_blocks st ! cur)\<lparr>bb_instrs := bb_instrs (m_blocks st ! cur) @ [Br h]\<rparr>"
    and "\<exists>b2. m_insertPoint (generateIR_loop (Suc i) body (generateIR_step i CHR ''['' st)) = Some b2
           \<and> (b2 = h + 1 \<or> h + 3 \<le> b2) \<and> b2 < length (m_blocks st3)
           \<and> m_blocks st3 =
               (m_blocks (generateIR_loop (Suc i) body (generateIR_step i CHR ''['' st)))
                 [b2 := (m_blocks (generateIR_loop (Suc i) body (generateIR_step i CHR ''['' st)) ! b2)
                    \<lparr>bb_instrs :=
                       bb_instrs (m_blocks (generateIR_loop (Suc i) body
                          (generateIR_step i CHR ''['' st)) ! b2) @ [Br h]\<rparr>]"
    and "m_insertPoint st3 = Some (h + 2)"
    and "m_loopStartBlocks st3 = m_loopStartBlocks st"
    and "m_loopEndBlocks st3 = m_loopEndBlocks st"
    and "h + 3 \<le> length (m_blocks st3)"
proof -
  let ?st0 = "count_instruction CHR ''['' (st\<lparr>m_currentIP := i\<rparr>)"
  let ?st1 = "generateIR_step i CHR ''['' st"
  let ?st2 = "generateIR_loop (Suc i) body ?st1"
  let ?j = "Suc i + length body"
  have st3: "st3 = generateIR_step ?j CHR '']'' ?st2"
    by (simp add: st3_def generateIR_loop_append)
  have clt: "cur < h"
    using wf cur by (simp add: well_formed_iff h_def)
  have b0: "m_insertPoint ?st0 = Some cur" "cur < length (m_blocks ?st0)"
    using cur clt by (simp_all add: count_instruction_def h_def)
  have blocks1: "m_blocks ?st1 =
      (m_blocks st)[cur := (m_blocks st ! cur)\<lparr>bb_instrs := bb_instrs (m_blocks st ! cur) @ [Br h]\<rparr>]
      @ [\<lparr>bb_name = loop_header i, bb_parent = m_mainFunction st,
            bb_instrs =
              [Load Int8Ty m_dataPtr ''current_ptr'',
               Load Int8Ty (Reg Int8Ty ''current_ptr'') ''loop_val'',
               ICmpEQ (Reg Int8Ty ''loop_val'') (ConstantInt Int8Ty 0) ''loop_cond'',
               CondBr (Reg Int1Ty ''loop_cond'') (h + 2) (h + 1)]\<rparr>,
         \<lparr>bb_name = loop_body i, bb_parent = m_mainFunction st, bb_instrs = []\<rparr>,
         \<lparr>bb_name = loop_end i, bb_parent = m_mainFunction st, bb_instrs = []\<rparr>]"
    unfolding open_step handleLoopStart_eq[OF b0] by (simp add: count_instruction_def h_def)
  note o = open_step_blocks[OF cur clt[unfolded h_def], where i = i, folded h_def]
  have wf1: "well_formed ?st1" using wf by (rule well_formed_step)
  have wf2: "well_formed ?st2" using wf1 by (rule well_formed_loop)
  have p: "checkBrackets_loop (int 0) body = Passed"
    using body by (simp add: checkBrackets_def)
  have fr: "(\<forall>j < h + 3. j \<noteq> h + 1 \<longrightarrow> m_blocks ?st2 ! j = m_blocks ?st1 ! j)
       \<and> (\<exists>b'. m_insertPoint ?st2 = Some b' \<and> (b' = h + 1 \<or> h + 3 \<le> b'))"
    using o by (intro translation_frame[OF p wf1, where b = "h + 1"]) simp_all
  then obtain b2 where b2: "m_insertPoint ?st2 = Some b2" "b2 = h + 1 \<or> h + 3 \<le> b2"
    by blast
  have b2lt: "b2 < length (m_blocks ?st2)"
    using wf2 b2(1) by (simp add: well_formed_iff)
  have same: "\<And>j. j < h + 3 \<Longrightarrow> j \<noteq> h + 1 \<Longrightarrow> m_blocks ?st2 ! j = m_blocks ?st1 ! j"
    using fr by blast
  have stacks2: "m_loopStartBlocks ?st2 = h # m_loopStartBlocks st"
      "m_loopEndBlocks ?st2 = (h + 2) # m_loopEndBlocks st"
    using balanced_translation[OF p, of ?st1 "Suc i"] o(4,5) by simp_all
  note cl = close_step_blocks[OF b2(1) stacks2, where i = ?j, folded st3]
  have len1: "length (m_blocks ?st1) = h + 3" using o(2) .
  have name1: "bb_name (m_blocks ?st1 ! (h + 1)) = loop_body i"
    unfolding blocks1 by (simp add: nth_append h_def)
  have name2: "bb_name (m_blocks ?st2 ! (h + 1)) = loop_body i"
    using loop_name_kept[OF wf1, of "h + 1" "Suc i" body] len1 name1 by simp
  show "m_blocks st3 ! h = \<lparr>bb_name = loop_header i, bb_parent = m_mainFunction st,
            bb_instrs =
              [Load Int8Ty m_dataPtr ''current_ptr'',
               Load Int8Ty (Reg Int8Ty ''current_ptr'') ''loop_val'',
               ICmpEQ (Reg Int8Ty ''loop_val'') (ConstantInt Int8Ty 0) ''loop_cond'',
               CondBr (Reg Int1Ty ''loop_cond'') (h + 2) (h + 1)]\<rparr>"
    using b2(2) same[of h] unfolding cl(2) blocks1 by (auto simp add: nth_append h_def)
  show "m_blocks st3 ! (h + 2) = \<lparr>bb_name = loop_end i, bb_parent = m_mainFunction st, bb_instrs = []\<rparr>"
    using b2(2) same[of "h + 2"] unfolding cl(2) blocks1 by (auto simp add: nth_append h_def)
  show "m_blocks st3 ! cur = (m_blocks st ! cur)\<lparr>bb_instrs := bb_instrs (m_blocks st ! cur) @ [Br h]\<rparr>"
    using b2(2) clt same[of cur] unfolding cl(2) blocks1 by (auto simp add: nth_append h_def)
  show "\<exists>b2. m_insertPoint ?st2 = Some b2
           \<and> (b2 = h + 1 \<or> h + 3 \<le> b2) \<and> b2 < length (m_blocks st3)
           \<and> m_blocks st3 =
               (m_blocks ?st2)[b2 := (m_blocks ?st2 ! b2)
                    \<lparr>bb_instrs := bb_instrs (m_blocks ?st2 ! b2) @ [Br h]\<rparr>]"
    using b2 b2lt cl(2) by (intro exI[of _ b2]) simp
  have "length (map bb_name (m_blocks ?st1)) \<le> length (map bb_name (m_blocks ?st2))"
    using loop_names[OF wf1, of "Suc i" body] by (rule prefix_length_le)
  then show "h + 3 \<le> length (m_blocks st3)"
    using len1 unfolding cl(2) by simp
  show "m_insertPoint st3 = Some (h + 2)" using cl(1) .
  show "m_loopStartBlocks st3 = m_loopStartBlocks st" using cl(4) .
  show "m_loopEndBlocks st3 = m_loopEndBlocks st" using cl(3) .
  show "bb_name (m_blocks st3 ! (h + 1)) = loop_body i"
    using name2 b2lt unfolding cl(2) by (cases "b2 = h + 1") simp_all
qed


section \<open>Running lists of instructions\<close>

lemma exec_instrs_append:
  "exec_instrs (xs @ ys) m =
     (case exec_instrs xs m of
        Next m' \<Rightarrow> exec_instrs ys m'
      | Jump b m' \<Rightarrow> Jump b m'
      | Return v m' \<Rightarrow> Return v m'
      | Undefined_Behaviour \<Rightarrow> Undefined_Behaviour
      | Ill_Formed \<Rightarrow> Ill_Formed)"
  by (induction xs arbitrary: m) (simp_all split: step.splits)

lemma exec_instrs_ill_formed:
  "exec_instrs xs m = Ill_Formed \<Longrightarrow> exec_instrs (xs @ ys) m = Ill_Formed"
  by (simp add: exec_instrs_append)

lemma exec_instrs_no_result:
  "no_result (exec_instrs xs m) \<Longrightarrow> no_result (exec_instrs (xs @ ys) m)"
  by (cases "exec_instrs xs m") (simp_all add: exec_instrs_append)

lemma load_byte:
  assumes "k < length h" "0 \<le> c" "c < int (length (h ! k))" "h ! k ! nat c = Byte v"
  shows "load Int8Ty h (VPtr k c) = Some (VInt8 v)"
proof -
  have "nat c < length (h ! k)" using assms(2,3) by simp
  then have "drop (nat c) (h ! k) = h ! k ! nat c # drop (Suc (nat c)) (h ! k)"
    by (simp add: Cons_nth_drop_Suc)
  then have "take 1 (drop (nat c) (h ! k)) = [h ! k ! nat c]"
    by simp
  then show ?thesis using assms by (simp add: in_object_def)
qed

lemma store_byte:
  assumes "k < length h" "0 \<le> c" "c < int (length (h ! k))" "encode Int8Ty v = [b]"
  shows "store Int8Ty h (VPtr k c) v = Some (h[k := (h ! k)[nat c := b]])"
proof -
  have n: "nat c < length (h ! k)" using assms(2,3) by simp
  have "take (nat c) (h ! k) @ [b] @ drop (nat c + 1) (h ! k) = (h ! k)[nat c := b]"
    using upd_conv_take_nth_drop[OF n, of b] by simp
  then show ?thesis using assms by (simp add: in_object_def)
qed

lemma load_pointer:
  assumes "k < length h" "length (h ! k) = 8"
  shows "load PtrTy h (VPtr k 0) = Some (the_pointer (h ! k))"
  using assms by (simp add: in_object_def)

lemma store_pointer:
  assumes "k < length h" "length (h ! k) = 8"
  shows "store PtrTy h (VPtr k 0) (VPtr j off) = Some (h[k := pointer_bytes j off])"
  using assms by (simp add: in_object_def)

lemma the_pointer_bytes: "the_pointer (pointer_bytes k off) = VPtr k off"
  by (simp add: the_pointer_def pointer_bytes_def)

lemma length_pointer_bytes: "length (pointer_bytes k off) = 8"
  by (simp add: pointer_bytes_def)

section \<open>Addition and subtraction of 1 with both flags set\<close>

lemma nuw_add_1: "uint (v::8 word) + uint (1::8 word) \<noteq> uint (v + 1) \<longleftrightarrow> v = 255"
proof -
  have r: "0 \<le> uint v" "uint v < 256" using uint_lt2p[of v] by simp_all
  have "uint (v + 1) = (uint v + 1) mod 256" by (simp add: uint_word_ariths)
  moreover have "v = 255 \<longleftrightarrow> uint v = 255" by (simp add: word_uint_eq_iff)
  ultimately show ?thesis using r by (auto simp: mod_pos_pos_trivial)
qed

lemma nuw_sub_1: "uint (v::8 word) - uint (1::8 word) \<noteq> uint (v - 1) \<longleftrightarrow> v = 0"
proof -
  have r: "0 \<le> uint v" "uint v < 256" using uint_lt2p[of v] by simp_all
  have u: "uint (v - 1) = (uint v - 1) mod 256" by (simp add: uint_word_ariths)
  have z: "v = 0 \<longleftrightarrow> uint v = 0" by (simp add: word_uint_eq_iff)
  show ?thesis
  proof (cases "uint v = 0")
    case True
    then show ?thesis using u z by simp
  next
    case False
    then have "0 \<le> uint v - 1" "uint v - 1 < 256" using r by arith+
    then have "(uint v - 1) mod 256 = uint v - 1" by (rule mod_pos_pos_trivial)
    then show ?thesis using u z False by simp
  qed
qed

lemma nsw_add_1: "sint (v::8 word) + sint (1::8 word) \<noteq> sint (v + 1) \<longleftrightarrow> v = 127"
proof -
  have r: "- 128 \<le> sint v" "sint v < 128" using sint_ge[of v] sint_lt[of v] by simp_all
  have s: "sint (v + 1) = signed_take_bit 7 (sint v + 1)" by (simp add: sint_word_ariths)
  have z: "v = 127 \<longleftrightarrow> sint v = 127" by (simp add: word_eq_iff_signed[where ?'a=int])
  have "signed_take_bit 7 (sint v + 1) = sint v + 1 \<longleftrightarrow> - 128 \<le> sint v + 1 \<and> sint v + 1 < 128"
    using signed_take_bit_int_eq_self_iff[of 7 "sint v + 1"] by simp
  then show ?thesis using r s z by auto
qed

lemma nsw_sub_1: "sint (v::8 word) - sint (1::8 word) \<noteq> sint (v - 1) \<longleftrightarrow> v = 128"
proof -
  have r: "- 128 \<le> sint v" "sint v < 128" using sint_ge[of v] sint_lt[of v] by simp_all
  have s: "sint (v - 1) = signed_take_bit 7 (sint v - 1)" by (simp add: sint_word_ariths)
  have z: "v = 128 \<longleftrightarrow> sint v = - 128" by (simp add: word_eq_iff_signed[where ?'a=int])
  have "signed_take_bit 7 (sint v - 1) = sint v - 1 \<longleftrightarrow> - 128 \<le> sint v - 1 \<and> sint v - 1 < 128"
    using signed_take_bit_int_eq_self_iff[of 7 "sint v - 1"] by simp
  then show ?thesis using r s z by auto
qed

lemma add_flags_1: "add_flags True True (v::8 word) 1 = (if v = 255 \<or> v = 127 then None else Some (v + 1))"
  unfolding add_flags_def using nuw_add_1[of v] nsw_add_1[of v] by auto

lemma sub_flags_1: "sub_flags True True (v::8 word) 1 = (if v = 0 \<or> v = 128 then None else Some (v - 1))"
  unfolding sub_flags_def using nuw_sub_1[of v] nsw_sub_1[of v] by auto


section \<open>What the instructions of each handler do to the machine\<close>

lemma store_byte_number:
  assumes "k < length h" "0 \<le> c" "c < int (length (h ! k))"
  shows "store Int8Ty h (VPtr k c) (VInt8 w) = Some (h[k := (h ! k)[nat c := Byte w]])"
  using assms by (intro store_byte) simp_all

lemma store_byte_poison:
  assumes "k < length h" "0 \<le> c" "c < int (length (h ! k))"
  shows "store Int8Ty h (VPtr k c) VPoison = Some (h[k := (h ! k)[nat c := PoisonByte]])"
  using assms by (intro store_byte) simp_all

lemmas machine_defs = laid_out_def data_pointer_def memory_cells_def set_reg_def exec_instr_def
  getIndexedType_def m_dataPtr_def m_getcharFunc_def m_putcharFunc_def

lemmas memory_simps = load_pointer store_pointer load_byte store_byte_number store_byte_poison
  the_pointer_bytes length_pointer_bytes

lemma trunc_eof: "(ucast (- 1 :: 32 word) :: 8 word) = 255"
proof -
  have "(ucast (- 1 :: 32 word) :: 8 word) = - 1"
    by (rule bit_word_eqI) (auto simp add: bit_simps)
  also have "(- 1 :: 8 word) = 255" by simp
  finally show ?thesis .
qed

lemma trunc_byte: "(ucast (ucast (b :: 8 word) :: 32 word) :: 8 word) = b"
  by (rule bit_word_eqI) (auto simp add: bit_simps)

lemma next_char_low_byte:
  "(ucast (next_char m) :: 8 word) = (case stdin m of [] \<Rightarrow> 255 | b # bs \<Rightarrow> b)"
  by (simp add: next_char_def trunc_eof trunc_byte split: list.splits)

subsection \<open>The handlers of \<^verbatim>\<open>src/BrainfuckCompiler.cpp\<close>\<close>

text \<open>Each of them loads the content of \<^verbatim>\<open>dataptr\<close> as an \<^verbatim>\<open>i8\<close> and then
  uses that value as an address; the instruction that does so is not well formed,
  and no run comes to the end of the handler's instructions.\<close>

lemma handleIncrementPtr_emitted:
  assumes "m_insertPoint st = Some b" "b < length (m_blocks st)"
  shows "emitted handleIncrementPtr st =
     [Load Int8Ty m_dataPtr ''current_ptr'',
      GetElementPtr False Int8Ty (Reg Int8Ty ''current_ptr'') [ConstantInt Int32Ty 1] ''ptr_inc'',
      Store (Reg Int8Ty ''ptr_inc'') m_dataPtr]"
  using assms emitted_emit unfolding handleIncrementPtr_emit by blast

lemma handleDecrementPtr_emitted:
  assumes "m_insertPoint st = Some b" "b < length (m_blocks st)"
  shows "emitted handleDecrementPtr st =
     [Load Int8Ty m_dataPtr ''current_ptr'',
      GetElementPtr False Int8Ty (Reg Int8Ty ''current_ptr'')
        [ConstantInt Int32Ty 4294967295] ''ptr_dec'',
      Store (Reg Int8Ty ''ptr_dec'') m_dataPtr]"
  using assms emitted_emit unfolding handleDecrementPtr_emit by blast

lemma handleIncrementByte_emitted:
  assumes "m_insertPoint st = Some b" "b < length (m_blocks st)"
  shows "emitted handleIncrementByte st =
     [Load Int8Ty m_dataPtr ''current_ptr'',
      Load Int8Ty (Reg Int8Ty ''current_ptr'') ''current_val'',
      Add (Reg Int8Ty ''current_val'') (ConstantInt Int8Ty 1) ''val_inc'' True True,
      Store (Reg Int8Ty ''val_inc'') (Reg Int8Ty ''current_ptr'')]"
  using assms emitted_emit unfolding handleIncrementByte_emit by blast

lemma handleDecrementByte_emitted:
  assumes "m_insertPoint st = Some b" "b < length (m_blocks st)"
  shows "emitted handleDecrementByte st =
     [Load Int8Ty m_dataPtr ''current_ptr'',
      Load Int8Ty (Reg Int8Ty ''current_ptr'') ''current_val'',
      Sub (Reg Int8Ty ''current_val'') (ConstantInt Int8Ty 1) ''val_dec'' True True,
      Store (Reg Int8Ty ''val_dec'') (Reg Int8Ty ''current_ptr'')]"
  using assms emitted_emit unfolding handleDecrementByte_emit by blast

lemma handleInput_emitted:
  assumes "m_insertPoint st = Some b" "b < length (m_blocks st)"
  shows "emitted handleInput st =
     [Call m_getcharFunc [] ''input_char'',
      Trunc (Reg Int32Ty ''input_char'') Int8Ty ''input_byte'',
      Load Int8Ty m_dataPtr ''current_ptr'',
      Store (Reg Int8Ty ''input_byte'') (Reg Int8Ty ''current_ptr'')]"
  using assms emitted_emit unfolding handleInput_emit by blast

lemma handleIncrementPtr_no_result:
  assumes "m_insertPoint st = Some b" "b < length (m_blocks st)"
  shows "no_result (exec_instrs (emitted handleIncrementPtr st) m)"
  unfolding handleIncrementPtr_emitted[OF assms]
  by (simp add: exec_instr_def m_dataPtr_def split: option.splits)

lemma handleDecrementPtr_no_result:
  assumes "m_insertPoint st = Some b" "b < length (m_blocks st)"
  shows "no_result (exec_instrs (emitted handleDecrementPtr st) m)"
  unfolding handleDecrementPtr_emitted[OF assms]
  by (simp add: exec_instr_def m_dataPtr_def split: option.splits)

lemma handleIncrementByte_no_result:
  assumes "m_insertPoint st = Some b" "b < length (m_blocks st)"
  shows "no_result (exec_instrs (emitted handleIncrementByte st) m)"
  unfolding handleIncrementByte_emitted[OF assms]
  by (simp add: exec_instr_def m_dataPtr_def split: option.splits)

lemma handleDecrementByte_no_result:
  assumes "m_insertPoint st = Some b" "b < length (m_blocks st)"
  shows "no_result (exec_instrs (emitted handleDecrementByte st) m)"
  unfolding handleDecrementByte_emitted[OF assms]
  by (simp add: exec_instr_def m_dataPtr_def split: option.splits)

lemma handleInput_no_result:
  assumes "m_insertPoint st = Some b" "b < length (m_blocks st)"
  shows "no_result (exec_instrs (emitted handleInput st) m)"
  unfolding handleInput_emitted[OF assms]
  by (simp add: exec_instr_def m_dataPtr_def m_getcharFunc_def set_reg_def split: option.splits)

lemma loop_header_no_result:
  "no_result (exec_instrs [Load Int8Ty m_dataPtr ''current_ptr'',
                      Load Int8Ty (Reg Int8Ty ''current_ptr'') ''loop_val'',
                      ICmpEQ (Reg Int8Ty ''loop_val'') (ConstantInt Int8Ty 0) ''loop_cond'',
                      CondBr (Reg Int1Ty ''loop_cond'') loopEnd loopBody] m)"
  by (simp add: exec_instr_def m_dataPtr_def split: option.splits)

text \<open>A handler that appends an instruction that is not well formed leaves a
  broken module, and a broken module stays broken whatever is appended.\<close>

lemma broken_iff:
  "broken st \<longleftrightarrow>
     (\<exists>j < length (m_blocks st). \<exists>i \<in> set (bb_instrs (m_blocks st ! j)). \<not> instr_ok i)"
  unfolding broken_def list_ex_iff by (metis in_set_conv_nth)

lemma broken_emit:
  assumes "m_insertPoint st = Some b" "b < length (m_blocks st)" "i \<in> set is" "\<not> instr_ok i"
  shows "broken (emit is st)"
  unfolding broken_iff emit_blocks[OF assms(1,2)]
  using assms(2,3,4) by (intro exI[of _ b]) auto

lemma broken_extends:
  assumes "extends st st'" "broken st"
  shows "broken st'"
proof -
  obtain j i where j: "j < length (m_blocks st)" "i \<in> set (bb_instrs (m_blocks st ! j))" "\<not> instr_ok i"
    using assms(2) by (auto simp add: broken_iff)
  have "prefix (bb_instrs (m_blocks st ! j)) (bb_instrs (m_blocks st' ! j))"
       "j < length (m_blocks st')"
    using assms(1) j(1) by (auto simp add: extends_iff)
  then show ?thesis
    using j(2,3) unfolding broken_iff by (meson set_mono_prefix subsetD)
qed

subsection \<open>The handlers of the revision with typed loads\<close>

lemma exec_handleIncrementPtr2:
  assumes "m_insertPoint st = Some b" "b < length (m_blocks st)"
    and "laid_out m" "data_pointer m = VPtr 0 c"
  shows "\<exists>m'. exec_instrs (emitted handleIncrementPtr2 st) m = Next m'
       \<and> laid_out m' \<and> data_pointer m' = VPtr 0 (c + 1) \<and> memory_cells m' = memory_cells m
       \<and> stdin m' = stdin m \<and> stdout m' = stdout m"
proof -
  have "emitted handleIncrementPtr2 st =
     [Load PtrTy m_dataPtr ''current_ptr'',
      GetElementPtr False Int8Ty (Reg PtrTy ''current_ptr'') [ConstantInt Int32Ty 1] ''ptr_inc'',
      Store (Reg PtrTy ''ptr_inc'') m_dataPtr]"
    using assms(1,2) emitted_emit unfolding handleIncrementPtr2_emit by blast
  then show ?thesis
    using assms(3,4)
    by (simp add: machine_defs memory_simps del: load.simps store.simps)
qed

lemma exec_handleDecrementPtr2:
  assumes "m_insertPoint st = Some b" "b < length (m_blocks st)"
    and "laid_out m" "data_pointer m = VPtr 0 c"
  shows "\<exists>m'. exec_instrs (emitted handleDecrementPtr2 st) m = Next m'
       \<and> laid_out m' \<and> data_pointer m' = VPtr 0 (c - 1) \<and> memory_cells m' = memory_cells m
       \<and> stdin m' = stdin m \<and> stdout m' = stdout m"
proof -
  have "emitted handleDecrementPtr2 st =
     [Load PtrTy m_dataPtr ''current_ptr'',
      GetElementPtr False Int8Ty (Reg PtrTy ''current_ptr'')
        [ConstantInt Int32Ty 4294967295] ''ptr_dec'',
      Store (Reg PtrTy ''ptr_dec'') m_dataPtr]"
    using assms(1,2) emitted_emit unfolding handleDecrementPtr2_emit by blast
  then show ?thesis
    using assms(3,4)
    by (simp add: machine_defs memory_simps del: load.simps store.simps)
qed

lemma exec_handleIncrementByte2:
  assumes "m_insertPoint st = Some b" "b < length (m_blocks st)"
    and "laid_out m" "data_pointer m = VPtr 0 c"
    and "0 \<le> c" "c < int (length (memory_cells m))" "memory_cells m ! nat c = Byte v"
  shows "\<exists>m'. exec_instrs (emitted handleIncrementByte2 st) m = Next m'
       \<and> laid_out m' \<and> data_pointer m' = VPtr 0 c
       \<and> memory_cells m' = (memory_cells m)
             [nat c := (if v = 255 \<or> v = 127 then PoisonByte else Byte (v + 1))]
       \<and> stdin m' = stdin m \<and> stdout m' = stdout m"
proof -
  have "emitted handleIncrementByte2 st =
     [Load PtrTy m_dataPtr ''current_ptr'',
      Load Int8Ty (Reg PtrTy ''current_ptr'') ''current_val'',
      Add (Reg Int8Ty ''current_val'') (ConstantInt Int8Ty 1) ''val_inc'' True True,
      Store (Reg Int8Ty ''val_inc'') (Reg PtrTy ''current_ptr'')]"
    using assms(1,2) emitted_emit unfolding handleIncrementByte2_emit by blast
  then show ?thesis
    using assms(3-7)
    by (simp add: machine_defs memory_simps add_flags_1 of_flags_def del: load.simps store.simps)
qed

lemma exec_handleDecrementByte2:
  assumes "m_insertPoint st = Some b" "b < length (m_blocks st)"
    and "laid_out m" "data_pointer m = VPtr 0 c"
    and "0 \<le> c" "c < int (length (memory_cells m))" "memory_cells m ! nat c = Byte v"
  shows "\<exists>m'. exec_instrs (emitted handleDecrementByte2 st) m = Next m'
       \<and> laid_out m' \<and> data_pointer m' = VPtr 0 c
       \<and> memory_cells m' = (memory_cells m)
             [nat c := (if v = 0 \<or> v = 128 then PoisonByte else Byte (v - 1))]
       \<and> stdin m' = stdin m \<and> stdout m' = stdout m"
proof -
  have "emitted handleDecrementByte2 st =
     [Load PtrTy m_dataPtr ''current_ptr'',
      Load Int8Ty (Reg PtrTy ''current_ptr'') ''current_val'',
      Sub (Reg Int8Ty ''current_val'') (ConstantInt Int8Ty 1) ''val_dec'' True True,
      Store (Reg Int8Ty ''val_dec'') (Reg PtrTy ''current_ptr'')]"
    using assms(1,2) emitted_emit unfolding handleDecrementByte2_emit by blast
  then show ?thesis
    using assms(3-7)
    by (simp add: machine_defs memory_simps sub_flags_1 of_flags_def del: load.simps store.simps)
qed

lemma exec_handleOutput2:
  assumes "m_insertPoint st = Some b" "b < length (m_blocks st)"
    and "laid_out m" "data_pointer m = VPtr 0 c"
    and "0 \<le> c" "c < int (length (memory_cells m))" "memory_cells m ! nat c = Byte v"
  shows "\<exists>m'. exec_instrs (emitted handleOutput2 st) m = Next m'
       \<and> laid_out m' \<and> data_pointer m' = VPtr 0 c \<and> memory_cells m' = memory_cells m
       \<and> stdin m' = stdin m \<and> stdout m' = stdout m @ [v]"
proof -
  have "emitted handleOutput2 st =
     [Load PtrTy m_dataPtr ''current_ptr'',
      Load Int8Ty (Reg PtrTy ''current_ptr'') ''output_val'',
      ZExt (Reg Int8Ty ''output_val'') Int32Ty ''output_int'',
      Call m_putcharFunc [Reg Int32Ty ''output_int''] []]"
    using assms(1,2) emitted_emit unfolding handleOutput2_emit by blast
  then show ?thesis
    using assms(3-7)
    by (simp add: machine_defs memory_simps trunc_byte del: load.simps store.simps)
qed

lemma exec_handleInput2:
  assumes "m_insertPoint st = Some b" "b < length (m_blocks st)"
    and "laid_out m" "data_pointer m = VPtr 0 c"
    and "0 \<le> c" "c < int (length (memory_cells m))"
  shows "\<exists>m'. exec_instrs (emitted handleInput2 st) m = Next m'
       \<and> laid_out m' \<and> data_pointer m' = VPtr 0 c
       \<and> memory_cells m' = (memory_cells m)[nat c := Byte (ucast (next_char m))]
       \<and> stdin m' = tl (stdin m) \<and> stdout m' = stdout m"
proof -
  have "emitted handleInput2 st =
     [Call m_getcharFunc [] ''input_char'',
      Trunc (Reg Int32Ty ''input_char'') Int8Ty ''input_byte'',
      Load PtrTy m_dataPtr ''current_ptr'',
      Store (Reg Int8Ty ''input_byte'') (Reg PtrTy ''current_ptr'')]"
    using assms(1,2) emitted_emit unfolding handleInput2_emit by blast
  then show ?thesis
    using assms(3-6)
    by (simp add: machine_defs memory_simps del: load.simps store.simps)
qed

lemma exec_loop_header2:
  assumes "laid_out m" "data_pointer m = VPtr 0 c"
    and "0 \<le> c" "c < int (length (memory_cells m))" "memory_cells m ! nat c = Byte v"
  shows "\<exists>m'. exec_instrs [Load PtrTy m_dataPtr ''current_ptr'',
                      Load Int8Ty (Reg PtrTy ''current_ptr'') ''loop_val'',
                      ICmpEQ (Reg Int8Ty ''loop_val'') (ConstantInt Int8Ty 0) ''loop_cond'',
                      CondBr (Reg Int1Ty ''loop_cond'') loopEnd loopBody] m
            = Jump (if v = 0 then loopEnd else loopBody) m'
       \<and> laid_out m' \<and> data_pointer m' = VPtr 0 c \<and> memory_cells m' = memory_cells m
       \<and> stdin m' = stdin m \<and> stdout m' = stdout m"
  using assms by (simp add: machine_defs memory_simps del: load.simps store.simps)

lemma handleLoopStart2_eq:
  assumes "m_insertPoint st = Some cur" "cur < length (m_blocks st)"
  shows "handleLoopStart2 ip st =
     st\<lparr>m_blocks :=
          (m_blocks st)[cur := (m_blocks st ! cur)
              \<lparr>bb_instrs := bb_instrs (m_blocks st ! cur) @ [Br (length (m_blocks st))]\<rparr>]
          @ [\<lparr>bb_name = loop_header ip, bb_parent = m_mainFunction st,
               bb_instrs =
                 [Load PtrTy m_dataPtr ''current_ptr'',
                  Load Int8Ty (Reg PtrTy ''current_ptr'') ''loop_val'',
                  ICmpEQ (Reg Int8Ty ''loop_val'') (ConstantInt Int8Ty 0) ''loop_cond'',
                  CondBr (Reg Int1Ty ''loop_cond'') (length (m_blocks st) + 2) (length (m_blocks st) + 1)]\<rparr>,
             \<lparr>bb_name = loop_body ip, bb_parent = m_mainFunction st, bb_instrs = []\<rparr>,
             \<lparr>bb_name = loop_end ip, bb_parent = m_mainFunction st, bb_instrs = []\<rparr>],
        m_insertPoint := Some (length (m_blocks st) + 1),
        m_loopStartBlocks := length (m_blocks st) # m_loopStartBlocks st,
        m_loopEndBlocks := (length (m_blocks st) + 2) # m_loopEndBlocks st\<rparr>"
  using assms
  by (simp add: handleLoopStart2_def BasicBlock_Create_def SetInsertPoint_def Let_def builder_defs
      Insert_emit emit_Some nth_append list_update_append)

subsection \<open>The code of the entry block\<close>

lemma exec_entry_code:
  "exec_instrs
     ([Alloca (ArrayTy Int8Ty N) ''memory'',
       BitCast (Reg PtrTy ''memory'') Int8Ty [],
       Call (Func ''llvm.memset.p0.i8'' VoidTy [PtrTy, Int8Ty, Int8Ty, Int1Ty])
         [Reg Int8Ty [], ConstantInt Int8Ty 0, ConstantInt Int64Ty (int N), ConstantInt Int1Ty 0] [],
       Alloca Int8Ty ''dataptr'',
       GetElementPtr True Int8Ty (Reg PtrTy ''memory'')
         [ConstantInt Int32Ty 0, ConstantInt Int32Ty (int (N div 2))] ''initial_ptr'',
       Store (Reg PtrTy ''initial_ptr'') (Reg PtrTy ''dataptr'')] @ rest) m = Ill_Formed"
  by (simp add: exec_instr_def bitcast_ok_def)

lemma pointer_into_byte:
  "exec_instrs [Alloca Int8Ty ''dataptr'', Store (Reg PtrTy p) (Reg PtrTy ''dataptr'')] m
     = Undefined_Behaviour"
  by (simp add: exec_instr_def in_object_def)

lemma broken_prepare: "broken (prepare st)"
  unfolding broken_iff prepare_blocks
  by (intro exI[of _ "length (m_blocks st)"]) (simp add: bitcast_ok_def)

lemma broken_generateIR: "broken (generateIR source (prepare st))"
  using extends_generateIR broken_prepare by (rule broken_extends)

lemma entry_block_generateIR:
  "prefix (bb_instrs (m_blocks (prepare st) ! length (m_blocks st)))
     (bb_instrs (m_blocks (generateIR source (prepare st)) ! length (m_blocks st)))"
proof -
  have "length (m_blocks st) < length (m_blocks (prepare st))"
    by (simp add: prepare_blocks)
  then show ?thesis
    using extends_generateIR[of "prepare st" source] by (simp add: extends_iff)
qed

lemma compile_rejects:
  assumes "\<And>x. broken x \<Longrightarrow> verifyModule be x" "checkBrackets source = Passed"
  shows "compile be source outputFile enableJIT st
     = Some (False, reportError GeneratedIRInvalid (generateIR source (prepare st)))"
  using assms(1)[OF broken_generateIR[of source st]] assms(2)
  by (simp add: compile_def)

lemma prepared_insertPoint:
  "m_insertPoint (prepare (BrainfuckCompiler N)) = Some 0"
  "0 < length (m_blocks (prepare (BrainfuckCompiler N)))"
  by (simp_all add: prepare_BrainfuckCompiler)

section \<open>Cursor, cells and input\<close>

text \<open>
  Claim C1 says that the cursor wraps modulo the memory size. The code of
  \<^verbatim>\<open><\<close> and \<^verbatim>\<open>>\<close> is a load of the content of \<^verbatim>\<open>dataptr\<close>, a
  \<^verbatim>\<open>getelementptr\<close> by -1 or 1 and a store: there is no remainder and no
  comparison in it. In \<^verbatim>\<open>src/BrainfuckCompiler.cpp\<close> the load has the type
  \<^verbatim>\<open>i8\<close>, so the \<^verbatim>\<open>getelementptr\<close> has no pointer to start from: it is
  not well formed, the module is broken, and no run comes to the end of the three
  instructions. In the revision that loads with the pointer type the three
  instructions take the stored pointer from offset \<open>c\<close> to \<open>c - 1\<close> and
  \<open>c + 1\<close>, whatever the size of the array: from cell 0 to offset -1 and from
  the last cell to the offset one past the end.
\<close>

theorem cursor_moves_without_wrap:
  assumes "m_insertPoint st = Some b" "b < length (m_blocks st)"
    and "laid_out m" "data_pointer m = VPtr 0 c"
  shows "emitted handleDecrementPtr st =
           [Load Int8Ty m_dataPtr ''current_ptr'',
            GetElementPtr False Int8Ty (Reg Int8Ty ''current_ptr'')
              [ConstantInt Int32Ty 4294967295] ''ptr_dec'',
            Store (Reg Int8Ty ''ptr_dec'') m_dataPtr]
       \<and> emitted handleIncrementPtr st =
           [Load Int8Ty m_dataPtr ''current_ptr'',
            GetElementPtr False Int8Ty (Reg Int8Ty ''current_ptr'') [ConstantInt Int32Ty 1] ''ptr_inc'',
            Store (Reg Int8Ty ''ptr_inc'') m_dataPtr]
       \<and> broken (handleDecrementPtr st) \<and> broken (handleIncrementPtr st)
       \<and> (\<forall>m0. no_result (exec_instrs (emitted handleDecrementPtr st) m0))
       \<and> (\<forall>m0. no_result (exec_instrs (emitted handleIncrementPtr st) m0))
       \<and> (\<exists>m'. exec_instrs (emitted handleDecrementPtr2 st) m = Next m'
           \<and> laid_out m' \<and> data_pointer m' = VPtr 0 (c - 1)
           \<and> memory_cells m' = memory_cells m \<and> stdin m' = stdin m \<and> stdout m' = stdout m)
       \<and> (\<exists>m'. exec_instrs (emitted handleIncrementPtr2 st) m = Next m'
           \<and> laid_out m' \<and> data_pointer m' = VPtr 0 (c + 1)
           \<and> memory_cells m' = memory_cells m \<and> stdin m' = stdin m \<and> stdout m' = stdout m)"
proof -
  have "broken (handleDecrementPtr st)"
    unfolding handleDecrementPtr_emit
    by (rule broken_emit[OF assms(1,2), where i = "GetElementPtr False Int8Ty
          (Reg Int8Ty ''current_ptr'') [ConstantInt Int32Ty 4294967295] ''ptr_dec''"]) simp_all
  moreover have "broken (handleIncrementPtr st)"
    unfolding handleIncrementPtr_emit
    by (rule broken_emit[OF assms(1,2), where i = "GetElementPtr False Int8Ty
          (Reg Int8Ty ''current_ptr'') [ConstantInt Int32Ty 1] ''ptr_inc''"]) simp_all
  ultimately show ?thesis
    using handleDecrementPtr_emitted[OF assms(1,2)] handleIncrementPtr_emitted[OF assms(1,2)]
      handleDecrementPtr_no_result[OF assms(1,2)] handleIncrementPtr_no_result[OF assms(1,2)]
      exec_handleDecrementPtr2[OF assms] exec_handleIncrementPtr2[OF assms]
    by blast
qed

theorem cursor_moves_without_wrap_witness:
  "map_option data_pointer (next_machine (exec_instrs
       (emitted handleDecrementPtr2 (prepare (BrainfuckCompiler 1)))
       \<lparr>regs = [''dataptr'' \<mapsto> VPtr 1 0], heap = [[Byte 0], pointer_bytes 0 0],
        stdin = [], stdout = []\<rparr>))
     = Some (VPtr 0 (- 1))
   \<and> map_option data_pointer (next_machine (exec_instrs
       (emitted handleIncrementPtr2 (prepare (BrainfuckCompiler 1)))
       \<lparr>regs = [''dataptr'' \<mapsto> VPtr 1 0], heap = [[Byte 0], pointer_bytes 0 0],
        stdin = [], stdout = []\<rparr>))
     = Some (VPtr 0 1)
   \<and> no_result (exec_instrs
       (emitted handleDecrementPtr (prepare (BrainfuckCompiler 1)))
       \<lparr>regs = [''dataptr'' \<mapsto> VPtr 1 0], heap = [[Byte 0], pointer_bytes 0 0],
        stdin = [], stdout = []\<rparr>)
   \<and> broken (handleDecrementPtr (prepare (BrainfuckCompiler 1)))
   \<and> map_option fst
        (compile \<lparr>verifyModule = broken, optimizeModule = (\<lambda>st. st),
               executeJIT = (\<lambda>st. st), emitObjectFile = (\<lambda>f st. st)\<rparr>
           ''<'' ''a.out'' False (BrainfuckCompiler 1)) = Some False"
proof -
  have rejected: "map_option fst
        (compile \<lparr>verifyModule = broken, optimizeModule = (\<lambda>st. st),
               executeJIT = (\<lambda>st. st), emitObjectFile = (\<lambda>f st. st)\<rparr>
           ''<'' ''a.out'' False (BrainfuckCompiler 1)) = Some False"
    by (subst compile_rejects) (simp_all add: checkBrackets_def)
  let ?m = "\<lparr>regs = [''dataptr'' \<mapsto> VPtr 1 0], heap = [[Byte 0], pointer_bytes 0 0],
             stdin = [], stdout = []\<rparr>"
  have m: "laid_out ?m" "data_pointer ?m = VPtr 0 0"
    by (simp_all add: laid_out_def data_pointer_def the_pointer_bytes length_pointer_bytes)
  show ?thesis
    using rejected cursor_moves_without_wrap[OF prepared_insertPoint(1)[of 1] prepared_insertPoint(2)[of 1] m]
    by auto
qed

text \<open>
  Claim C2 says that the cell wraps modulo 256. The addition and the subtraction
  are created with both flags \<^verbatim>\<open>nuw\<close> and \<^verbatim>\<open>nsw\<close>. In
  \<^verbatim>\<open>src/BrainfuckCompiler.cpp\<close> the instructions of \<^verbatim>\<open>+\<close> and \<^verbatim>\<open>-\<close>
  load and store through an \<^verbatim>\<open>i8\<close>, so they are not well formed, the module
  is broken, and no run comes to their end. In the revision that loads the
  pointer with the pointer type, the code of \<^verbatim>\<open>+\<close> stores \<open>v + 1\<close> unless
  \<open>v\<close> is 255 or 127, and the code of \<^verbatim>\<open>-\<close> stores \<open>v - 1\<close> unless \<open>v\<close>
  is 0 or 128; in those cases the stored value is poison.
\<close>

theorem byte_arithmetic_with_flags:
  assumes "m_insertPoint st = Some b" "b < length (m_blocks st)"
    and "laid_out m" "data_pointer m = VPtr 0 c"
    and "0 \<le> c" "c < int (length (memory_cells m))" "memory_cells m ! nat c = Byte v"
  shows "emitted handleIncrementByte st =
           [Load Int8Ty m_dataPtr ''current_ptr'',
            Load Int8Ty (Reg Int8Ty ''current_ptr'') ''current_val'',
            Add (Reg Int8Ty ''current_val'') (ConstantInt Int8Ty 1) ''val_inc'' True True,
            Store (Reg Int8Ty ''val_inc'') (Reg Int8Ty ''current_ptr'')]
       \<and> emitted handleDecrementByte st =
           [Load Int8Ty m_dataPtr ''current_ptr'',
            Load Int8Ty (Reg Int8Ty ''current_ptr'') ''current_val'',
            Sub (Reg Int8Ty ''current_val'') (ConstantInt Int8Ty 1) ''val_dec'' True True,
            Store (Reg Int8Ty ''val_dec'') (Reg Int8Ty ''current_ptr'')]
       \<and> broken (handleIncrementByte st) \<and> broken (handleDecrementByte st)
       \<and> (\<forall>m0. no_result (exec_instrs (emitted handleIncrementByte st) m0))
       \<and> (\<forall>m0. no_result (exec_instrs (emitted handleDecrementByte st) m0))
       \<and> (\<exists>m'. exec_instrs (emitted handleIncrementByte2 st) m = Next m'
           \<and> laid_out m' \<and> data_pointer m' = VPtr 0 c
           \<and> memory_cells m' = (memory_cells m)
                 [nat c := (if v = 255 \<or> v = 127 then PoisonByte else Byte (v + 1))]
           \<and> stdin m' = stdin m \<and> stdout m' = stdout m)
       \<and> (\<exists>m'. exec_instrs (emitted handleDecrementByte2 st) m = Next m'
           \<and> laid_out m' \<and> data_pointer m' = VPtr 0 c
           \<and> memory_cells m' = (memory_cells m)
                 [nat c := (if v = 0 \<or> v = 128 then PoisonByte else Byte (v - 1))]
           \<and> stdin m' = stdin m \<and> stdout m' = stdout m)"
proof -
  have "broken (handleIncrementByte st)"
    unfolding handleIncrementByte_emit
    by (rule broken_emit[OF assms(1,2), where i = "Load Int8Ty (Reg Int8Ty ''current_ptr'')
          ''current_val''"]) simp_all
  moreover have "broken (handleDecrementByte st)"
    unfolding handleDecrementByte_emit
    by (rule broken_emit[OF assms(1,2), where i = "Load Int8Ty (Reg Int8Ty ''current_ptr'')
          ''current_val''"]) simp_all
  ultimately show ?thesis
    using handleIncrementByte_emitted[OF assms(1,2)] handleDecrementByte_emitted[OF assms(1,2)]
      handleIncrementByte_no_result[OF assms(1,2)] handleDecrementByte_no_result[OF assms(1,2)]
      exec_handleIncrementByte2[OF assms] exec_handleDecrementByte2[OF assms]
    by blast
qed

theorem byte_arithmetic_with_flags_witness:
  "map_option memory_cells (next_machine (exec_instrs
       (emitted handleIncrementByte2 (prepare (BrainfuckCompiler 1)))
       \<lparr>regs = [''dataptr'' \<mapsto> VPtr 1 0], heap = [[Byte 255], pointer_bytes 0 0],
        stdin = [], stdout = []\<rparr>))
     = Some [PoisonByte]
   \<and> map_option memory_cells (next_machine (exec_instrs
       (emitted handleDecrementByte2 (prepare (BrainfuckCompiler 1)))
       \<lparr>regs = [''dataptr'' \<mapsto> VPtr 1 0], heap = [[Byte 255], pointer_bytes 0 0],
        stdin = [], stdout = []\<rparr>))
     = Some [Byte 254]
   \<and> no_result (exec_instrs
       (emitted handleDecrementByte (prepare (BrainfuckCompiler 1)))
       \<lparr>regs = [''dataptr'' \<mapsto> VPtr 1 0], heap = [[Byte 255], pointer_bytes 0 0],
        stdin = [], stdout = []\<rparr>)
   \<and> broken (handleDecrementByte (prepare (BrainfuckCompiler 1)))
   \<and> map_option fst
        (compile \<lparr>verifyModule = broken, optimizeModule = (\<lambda>st. st),
               executeJIT = (\<lambda>st. st), emitObjectFile = (\<lambda>f st. st)\<rparr>
           ''-'' ''a.out'' False (BrainfuckCompiler 1)) = Some False"
proof -
  have rejected: "map_option fst
        (compile \<lparr>verifyModule = broken, optimizeModule = (\<lambda>st. st),
               executeJIT = (\<lambda>st. st), emitObjectFile = (\<lambda>f st. st)\<rparr>
           ''-'' ''a.out'' False (BrainfuckCompiler 1)) = Some False"
    by (subst compile_rejects) (simp_all add: checkBrackets_def)
  let ?m = "\<lparr>regs = [''dataptr'' \<mapsto> VPtr 1 0], heap = [[Byte 255], pointer_bytes 0 0],
             stdin = [], stdout = []\<rparr>"
  have m: "laid_out ?m" "data_pointer ?m = VPtr 0 0" "(0::int) \<le> 0"
      "0 < int (length (memory_cells ?m))" "memory_cells ?m ! nat 0 = Byte 255"
    by (simp_all add: laid_out_def data_pointer_def memory_cells_def the_pointer_bytes
        length_pointer_bytes)
  show ?thesis
    using rejected byte_arithmetic_with_flags[OF prepared_insertPoint(1)[of 1] prepared_insertPoint(2)[of 1] m]
    by (auto simp add: memory_cells_def)
qed

text \<open>
  Claim C10. The code of \<^verbatim>\<open>,\<close> is four instructions with no branch: call
  \<^verbatim>\<open>getchar\<close>, truncate the result to 8 bits, load the content of
  \<^verbatim>\<open>dataptr\<close>, store. The truncation keeps the low byte of what \<^verbatim>\<open>getchar\<close>
  returned: the byte read, or 255 when \<^verbatim>\<open>getchar\<close> returned -1 at the end of
  the input. In \<^verbatim>\<open>src/BrainfuckCompiler.cpp\<close> the content of
  \<^verbatim>\<open>dataptr\<close> is loaded as an \<^verbatim>\<open>i8\<close> and the store goes through that
  \<^verbatim>\<open>i8\<close>: the store is not well formed, the module is broken, and no run
  comes to the end of the four instructions, so no cell receives the byte. In the revision that loads with the
  pointer type the current cell receives it.
\<close>

theorem input_store_needs_pointer:
  assumes "m_insertPoint st = Some b" "b < length (m_blocks st)"
    and "laid_out m" "data_pointer m = VPtr 0 c"
    and "0 \<le> c" "c < int (length (memory_cells m))"
  shows "emitted handleInput st =
           [Call m_getcharFunc [] ''input_char'',
            Trunc (Reg Int32Ty ''input_char'') Int8Ty ''input_byte'',
            Load Int8Ty m_dataPtr ''current_ptr'',
            Store (Reg Int8Ty ''input_byte'') (Reg Int8Ty ''current_ptr'')]
       \<and> \<not> instr_ok (Store (Reg Int8Ty ''input_byte'') (Reg Int8Ty ''current_ptr''))
       \<and> broken (handleInput st)
       \<and> (\<forall>m0. no_result (exec_instrs (emitted handleInput st) m0))
       \<and> (\<exists>m'. exec_instrs (emitted handleInput2 st) m = Next m'
           \<and> laid_out m' \<and> data_pointer m' = VPtr 0 c
           \<and> memory_cells m' = (memory_cells m)[nat c := Byte (ucast (next_char m))]
           \<and> stdin m' = tl (stdin m) \<and> stdout m' = stdout m)
       \<and> (stdin m = [] \<longrightarrow> next_char m = - 1 \<and> (ucast (next_char m) :: 8 word) = 255)
       \<and> (\<forall>x xs. stdin m = x # xs \<longrightarrow> (ucast (next_char m) :: 8 word) = x)"
proof -
  have "broken (handleInput st)"
    unfolding handleInput_emit
    by (rule broken_emit[OF assms(1,2), where i = "Store (Reg Int8Ty ''input_byte'')
          (Reg Int8Ty ''current_ptr'')"]) simp_all
  moreover have "\<not> instr_ok (Store (Reg Int8Ty ''input_byte'') (Reg Int8Ty ''current_ptr''))"
    by simp
  moreover have "stdin m = [] \<longrightarrow> next_char m = - 1 \<and> (ucast (next_char m) :: 8 word) = 255"
    by (simp add: next_char_low_byte) (simp add: next_char_def)
  moreover have "\<forall>x xs. stdin m = x # xs \<longrightarrow> (ucast (next_char m) :: 8 word) = x"
    by (simp add: next_char_low_byte)
  ultimately show ?thesis
    using handleInput_emitted[OF assms(1,2)] handleInput_no_result[OF assms(1,2)]
      exec_handleInput2[OF assms]
    by blast
qed

theorem input_store_needs_pointer_witness:
  "map_option memory_cells (next_machine (exec_instrs
       (emitted handleInput2 (prepare (BrainfuckCompiler 1)))
       \<lparr>regs = [''dataptr'' \<mapsto> VPtr 1 0], heap = [[Byte 0], pointer_bytes 0 0],
        stdin = [], stdout = []\<rparr>))
     = Some [Byte 255]
   \<and> map_option memory_cells (next_machine (exec_instrs
       (emitted handleInput2 (prepare (BrainfuckCompiler 1)))
       \<lparr>regs = [''dataptr'' \<mapsto> VPtr 1 0], heap = [[Byte 0], pointer_bytes 0 0],
        stdin = [255, 7], stdout = []\<rparr>))
     = Some [Byte 255]
   \<and> map_option memory_cells (next_machine (exec_instrs
       (emitted handleInput2 (prepare (BrainfuckCompiler 1)))
       \<lparr>regs = [''dataptr'' \<mapsto> VPtr 1 0], heap = [[Byte 0], pointer_bytes 0 0],
        stdin = [97], stdout = []\<rparr>))
     = Some [Byte 97]
   \<and> no_result (exec_instrs
       (emitted handleInput (prepare (BrainfuckCompiler 1)))
       \<lparr>regs = [''dataptr'' \<mapsto> VPtr 1 0], heap = [[Byte 0], pointer_bytes 0 0],
        stdin = [97], stdout = []\<rparr>)
   \<and> broken (handleInput (prepare (BrainfuckCompiler 1)))
   \<and> map_option fst
        (compile \<lparr>verifyModule = broken, optimizeModule = (\<lambda>st. st),
               executeJIT = (\<lambda>st. st), emitObjectFile = (\<lambda>f st. st)\<rparr>
           '','' ''a.out'' False (BrainfuckCompiler 1)) = Some False"
proof -
  have rejected: "map_option fst
        (compile \<lparr>verifyModule = broken, optimizeModule = (\<lambda>st. st),
               executeJIT = (\<lambda>st. st), emitObjectFile = (\<lambda>f st. st)\<rparr>
           '','' ''a.out'' False (BrainfuckCompiler 1)) = Some False"
    by (subst compile_rejects) (simp_all add: checkBrackets_def)
  let ?m = "\<lambda>input. \<lparr>regs = [''dataptr'' \<mapsto> VPtr 1 0], heap = [[Byte 0], pointer_bytes 0 0],
             stdin = input, stdout = []\<rparr>"
  have m: "laid_out (?m input)" "data_pointer (?m input) = VPtr 0 0" "(0::int) \<le> 0"
      "0 < int (length (memory_cells (?m input)))" for input
    by (simp_all add: laid_out_def data_pointer_def memory_cells_def the_pointer_bytes
        length_pointer_bytes)
  note t = input_store_needs_pointer[OF prepared_insertPoint(1)[of 1] prepared_insertPoint(2)[of 1] m,
      THEN conjunct2]
  show ?thesis
    using rejected t[of "[]"] t[of "[255, 7]"] t[of "[97]"]
    by (auto simp add: memory_cells_def)
qed


text \<open>
  Claim C4. Let a \<^verbatim>\<open>[\<close> at position \<open>i\<close> be translated when the builder appends
  to block \<open>cur\<close> and \<open>h\<close> blocks exist, then a body with balanced brackets, then
  the matching \<^verbatim>\<open>]\<close>. Afterwards block \<open>cur\<close> ends with a jump to the new
  header block \<open>h\<close>; the header block has four instructions, the last of which
  branches to the exit block \<open>h + 2\<close> or to the body block \<open>h + 1\<close>; the
  translation of \<^verbatim>\<open>]\<close> appends a jump back to the header to the block the
  builder was appending to when the body was done, and changes nothing else; the
  builder then appends to the exit block, which is still empty; and the loop
  stacks are as before the \<^verbatim>\<open>[\<close>. This much is as the claim says. But the
  header does not load the current cell: it loads the content of \<^verbatim>\<open>dataptr\<close> as
  an \<^verbatim>\<open>i8\<close> and then loads through that \<^verbatim>\<open>i8\<close>, which is not well formed;
  the module is broken and no run of the header comes to the branch. The header
  of the revision that loads with the pointer type, run on a machine whose current
  cell holds \<open>v\<close>, goes to the exit block when \<open>v = 0\<close> and to the body block
  otherwise, and changes neither memory nor input nor output.
\<close>

theorem loop_control_flow:
  fixes i :: nat
  assumes "well_formed st" "m_insertPoint st = Some cur" "checkBrackets body = Passed"
  defines "h \<equiv> length (m_blocks st)"
  defines "st2 \<equiv> generateIR_loop (Suc i) body (generateIR_step i CHR ''['' st)"
  defines "st3 \<equiv> generateIR_loop i (CHR ''['' # body @ [CHR '']'']) st"
  shows "bb_instrs (m_blocks st3 ! cur) = bb_instrs (m_blocks st ! cur) @ [Br h]
       \<and> m_blocks st3 ! h =
           \<lparr>bb_name = loop_header i, bb_parent = m_mainFunction st,
            bb_instrs =
              [Load Int8Ty m_dataPtr ''current_ptr'',
               Load Int8Ty (Reg Int8Ty ''current_ptr'') ''loop_val'',
               ICmpEQ (Reg Int8Ty ''loop_val'') (ConstantInt Int8Ty 0) ''loop_cond'',
               CondBr (Reg Int1Ty ''loop_cond'') (h + 2) (h + 1)]\<rparr>
       \<and> bb_name (m_blocks st3 ! (h + 1)) = loop_body i
       \<and> m_blocks st3 ! (h + 2)
           = \<lparr>bb_name = loop_end i, bb_parent = m_mainFunction st, bb_instrs = []\<rparr>
       \<and> (\<exists>b2. m_insertPoint st2 = Some b2 \<and> (b2 = h + 1 \<or> h + 3 \<le> b2)
             \<and> b2 < length (m_blocks st3)
             \<and> m_blocks st3 = (m_blocks st2)
                 [b2 := (m_blocks st2 ! b2)\<lparr>bb_instrs := bb_instrs (m_blocks st2 ! b2) @ [Br h]\<rparr>])
       \<and> m_insertPoint st3 = Some (h + 2)
       \<and> m_loopStartBlocks st3 = m_loopStartBlocks st
       \<and> m_loopEndBlocks st3 = m_loopEndBlocks st
       \<and> \<not> instr_ok (Load Int8Ty (Reg Int8Ty ''current_ptr'') ''loop_val'')
       \<and> broken st3
       \<and> (\<forall>m. no_result (exec_instrs (bb_instrs (m_blocks st3 ! h)) m))
       \<and> (\<forall>m c v. laid_out m \<and> data_pointer m = VPtr 0 c \<and> 0 \<le> c
               \<and> c < int (length (memory_cells m)) \<and> memory_cells m ! nat c = Byte v \<longrightarrow>
             (\<exists>m'. exec_instrs (bb_instrs (m_blocks (handleLoopStart2 i st) ! h)) m
                      = Jump (if v = 0 then h + 2 else h + 1) m'
                \<and> laid_out m' \<and> data_pointer m' = VPtr 0 c \<and> memory_cells m' = memory_cells m
                \<and> stdin m' = stdin m \<and> stdout m' = stdout m))"
proof -
  note lb = loop_blocks[OF assms(1-3), of i, folded h_def st3_def st2_def]
  have clt: "cur < length (m_blocks st)"
    using assms(1,2) by (simp add: well_formed_iff)
  have hdr: "bb_instrs (m_blocks (handleLoopStart2 i st) ! h) =
       [Load PtrTy m_dataPtr ''current_ptr'',
        Load Int8Ty (Reg PtrTy ''current_ptr'') ''loop_val'',
        ICmpEQ (Reg Int8Ty ''loop_val'') (ConstantInt Int8Ty 0) ''loop_cond'',
        CondBr (Reg Int1Ty ''loop_cond'') (h + 2) (h + 1)]"
    unfolding handleLoopStart2_eq[OF assms(2) clt] by (simp add: nth_append h_def)
  have sem: "\<forall>m c v. laid_out m \<and> data_pointer m = VPtr 0 c \<and> 0 \<le> c
               \<and> c < int (length (memory_cells m)) \<and> memory_cells m ! nat c = Byte v \<longrightarrow>
             (\<exists>m'. exec_instrs (bb_instrs (m_blocks (handleLoopStart2 i st) ! h)) m
                      = Jump (if v = 0 then h + 2 else h + 1) m'
                \<and> laid_out m' \<and> data_pointer m' = VPtr 0 c \<and> memory_cells m' = memory_cells m
                \<and> stdin m' = stdin m \<and> stdout m' = stdout m)"
    unfolding hdr using exec_loop_header2 by blast
  have stuck: "\<forall>m. no_result (exec_instrs (bb_instrs (m_blocks st3 ! h)) m)"
    unfolding lb(1) basic_block.simps using loop_header_no_result by blast
  have bad: "\<not> instr_ok (Load Int8Ty (Reg Int8Ty ''current_ptr'') ''loop_val'')"
    by simp
  have "h < length (m_blocks st3)"
    using lb(9) by simp
  moreover have "Load Int8Ty (Reg Int8Ty ''current_ptr'') ''loop_val''
      \<in> set (bb_instrs (m_blocks st3 ! h))"
    unfolding lb(1) by simp
  ultimately have br: "broken st3"
    using bad unfolding broken_iff by blast
  have c: "bb_instrs (m_blocks st3 ! cur) = bb_instrs (m_blocks st ! cur) @ [Br h]"
    unfolding lb(4) by simp
  from c lb(1,3,2,5,6,7,8) bad br stuck sem show ?thesis
    by (intro conjI)
qed

theorem loop_control_flow_witness:
  "m_blocks (generateIR_loop 0 ''[-]'' (prepare (BrainfuckCompiler 4))) ! 1 =
      \<lparr>bb_name = loop_header 0, bb_parent = Some 0,
        bb_instrs =
          [Load Int8Ty m_dataPtr ''current_ptr'',
           Load Int8Ty (Reg Int8Ty ''current_ptr'') ''loop_val'',
           ICmpEQ (Reg Int8Ty ''loop_val'') (ConstantInt Int8Ty 0) ''loop_cond'',
           CondBr (Reg Int1Ty ''loop_cond'') 3 2]\<rparr>
   \<and> m_insertPoint (generateIR_loop 0 ''[-]'' (prepare (BrainfuckCompiler 4))) = Some 3
   \<and> broken (generateIR_loop 0 ''[-]'' (prepare (BrainfuckCompiler 4)))
   \<and> no_result (exec_instrs
        (bb_instrs (m_blocks (generateIR_loop 0 ''[-]'' (prepare (BrainfuckCompiler 4))) ! 1))
        \<lparr>regs = [''dataptr'' \<mapsto> VPtr 1 0], heap = [[Byte 0], pointer_bytes 0 0],
         stdin = [], stdout = []\<rparr>)
   \<and> jump_target (exec_instrs
        (bb_instrs (m_blocks (handleLoopStart2 0 (prepare (BrainfuckCompiler 4))) ! 1))
        \<lparr>regs = [''dataptr'' \<mapsto> VPtr 1 0], heap = [[Byte 0], pointer_bytes 0 0],
         stdin = [], stdout = []\<rparr>)
      = Some 3
   \<and> jump_target (exec_instrs
        (bb_instrs (m_blocks (handleLoopStart2 0 (prepare (BrainfuckCompiler 4))) ! 1))
        \<lparr>regs = [''dataptr'' \<mapsto> VPtr 1 0], heap = [[Byte 5], pointer_bytes 0 0],
         stdin = [], stdout = []\<rparr>)
      = Some 2
   \<and> map_option fst
        (compile \<lparr>verifyModule = broken, optimizeModule = (\<lambda>st. st),
               executeJIT = (\<lambda>st. st), emitObjectFile = (\<lambda>f st. st)\<rparr>
           ''[-]'' ''a.out'' False (BrainfuckCompiler 4)) = Some False"
proof -
  have rejected: "map_option fst
        (compile \<lparr>verifyModule = broken, optimizeModule = (\<lambda>st. st),
               executeJIT = (\<lambda>st. st), emitObjectFile = (\<lambda>f st. st)\<rparr>
           ''[-]'' ''a.out'' False (BrainfuckCompiler 4)) = Some False"
    by (subst compile_rejects) (simp_all add: checkBrackets_def)
  let ?st = "prepare (BrainfuckCompiler 4)"
  let ?m = "\<lambda>v. \<lparr>regs = [''dataptr'' \<mapsto> VPtr 1 0], heap = [[Byte v], pointer_bytes 0 0],
             stdin = [], stdout = []\<rparr>"
  have wf: "well_formed ?st"
    by (intro well_formed_prepare) (simp_all add: BrainfuckCompiler_def)
  have ip: "m_insertPoint ?st = Some 0" by (rule prepared_insertPoint)
  have p: "checkBrackets ''-'' = Passed" by (simp add: checkBrackets_def)
  have h: "length (m_blocks ?st) = 1" "m_mainFunction ?st = Some 0"
    by (simp_all add: prepare_BrainfuckCompiler)
  have m: "laid_out (?m v) \<and> data_pointer (?m v) = VPtr 0 0 \<and> (0::int) \<le> 0
      \<and> 0 < int (length (memory_cells (?m v))) \<and> memory_cells (?m v) ! nat 0 = Byte v" for v
    by (simp add: laid_out_def data_pointer_def memory_cells_def the_pointer_bytes
        length_pointer_bytes)
  note t = loop_control_flow[OF wf ip p, of 0, unfolded h, simplified]
  note rest = t[THEN conjunct2, THEN conjunct2, THEN conjunct2, THEN conjunct2, THEN conjunct2,
      THEN conjunct2, THEN conjunct2, THEN conjunct2]
  note sem = rest[THEN conjunct2, THEN conjunct2, rule_format]
  obtain m0 where m0: "exec_instrs
        (bb_instrs (m_blocks (handleLoopStart2 0 ?st) ! Suc 0)) (?m 0) = Jump 3 m0"
    using sem[OF m[of 0]] by auto
  obtain m5 where m5: "exec_instrs
        (bb_instrs (m_blocks (handleLoopStart2 0 ?st) ! Suc 0)) (?m 5) = Jump 2 m5"
    using sem[OF m[of 5]] by auto
  show ?thesis
    using rejected t[THEN conjunct2, THEN conjunct1]
      t[THEN conjunct2, THEN conjunct2, THEN conjunct2, THEN conjunct2, THEN conjunct2, THEN conjunct1]
      rest[THEN conjunct1] rest[THEN conjunct2, THEN conjunct1, rule_format, of "?m 0"]
      m0 m5
    by simp
qed

section \<open>The initial state of the generated program\<close>

text \<open>The middle index is created as a 32-bit constant and an index is read as a
  signed number: for a memory of \<open>2 ^ 32\<close> cells it is \<open>- 2 ^ 31\<close>.\<close>

lemma initial_index_32_bits:
  "index_of (eval m (ConstantInt Int32Ty (int (4294967296 div 2)))) = Some (- 2147483648)"
  by simp

text \<open>
  Claim C8 says that the initialization allocates the array, fills it with 0 and
  sets the cursor to the middle cell before the first instruction is translated.
  \<^verbatim>\<open>compile\<close> does put six instructions for this into the entry block before
  \<^verbatim>\<open>generateIR\<close> starts, and the builder is left appending to that block, which
  begins with them after \<^verbatim>\<open>generateIR\<close> as well. But three of the six are not
  well formed: the bit cast of the pointer to the array to \<^verbatim>\<open>i8\<close>; the call of
  \<^verbatim>\<open>llvm.memset\<close>, whose first argument is that \<^verbatim>\<open>i8\<close> and whose length is
  an \<^verbatim>\<open>i64\<close> where the declaration asked for has an \<^verbatim>\<open>i8\<close>; and the
  \<^verbatim>\<open>getelementptr\<close>, which applies two indices to the source element type
  \<^verbatim>\<open>i8\<close>. The last instruction stores the 8 bytes of a pointer into
  \<^verbatim>\<open>dataptr\<close>, which the fourth allocated with one byte. So every module that
  \<^verbatim>\<open>compile\<close> builds is broken, a run of the entry block stops at the bit cast
  with no cell set and no cursor stored, and with a verifier that refuses broken
  modules \<^verbatim>\<open>compile\<close> returns \<^verbatim>\<open>false\<close> for every source that
  \<^verbatim>\<open>checkBrackets\<close> passes.
\<close>

theorem initialization_not_well_formed:
  "bb_instrs (m_blocks (prepare st) ! length (m_blocks st)) =
     [Alloca (ArrayTy Int8Ty (m_memorySize st)) ''memory'',
      BitCast (Reg PtrTy ''memory'') Int8Ty [],
      Call (Func ''llvm.memset.p0.i8'' VoidTy [PtrTy, Int8Ty, Int8Ty, Int1Ty])
        [Reg Int8Ty [], ConstantInt Int8Ty 0,
         ConstantInt Int64Ty (int (m_memorySize st)), ConstantInt Int1Ty 0] [],
      Alloca Int8Ty ''dataptr'',
      GetElementPtr True Int8Ty (Reg PtrTy ''memory'')
        [ConstantInt Int32Ty 0, ConstantInt Int32Ty (int (m_memorySize st div 2))] ''initial_ptr'',
      Store (Reg PtrTy ''initial_ptr'') (Reg PtrTy ''dataptr'')]
   \<and> m_insertPoint (prepare st) = Some (length (m_blocks st))
   \<and> prefix (bb_instrs (m_blocks (prepare st) ! length (m_blocks st)))
        (bb_instrs (m_blocks (generateIR source (prepare st)) ! length (m_blocks st)))
   \<and> \<not> instr_ok (BitCast (Reg PtrTy ''memory'') Int8Ty [])
   \<and> \<not> instr_ok (Call (Func ''llvm.memset.p0.i8'' VoidTy [PtrTy, Int8Ty, Int8Ty, Int1Ty])
        [Reg Int8Ty [], ConstantInt Int8Ty 0,
         ConstantInt Int64Ty (int (m_memorySize st)), ConstantInt Int1Ty 0] [])
   \<and> \<not> instr_ok (GetElementPtr True Int8Ty (Reg PtrTy ''memory'')
        [ConstantInt Int32Ty 0, ConstantInt Int32Ty (int (m_memorySize st div 2))] ''initial_ptr'')
   \<and> (\<forall>m. exec_instrs [Alloca Int8Ty ''dataptr'',
                       Store (Reg PtrTy ''initial_ptr'') (Reg PtrTy ''dataptr'')] m
            = Undefined_Behaviour)
   \<and> exec_instrs (bb_instrs (m_blocks (generateIR source (prepare st)) ! length (m_blocks st)))
        (start input) = Ill_Formed
   \<and> broken (generateIR source (prepare st))
   \<and> ((\<forall>x. broken x \<longrightarrow> verifyModule be x) \<and> checkBrackets source = Passed \<longrightarrow>
        compile be source outputFile enableJIT st
          = Some (False, reportError GeneratedIRInvalid (generateIR source (prepare st))))"
proof -
  have code: "bb_instrs (m_blocks (prepare st) ! length (m_blocks st)) =
     [Alloca (ArrayTy Int8Ty (m_memorySize st)) ''memory'',
      BitCast (Reg PtrTy ''memory'') Int8Ty [],
      Call (Func ''llvm.memset.p0.i8'' VoidTy [PtrTy, Int8Ty, Int8Ty, Int1Ty])
        [Reg Int8Ty [], ConstantInt Int8Ty 0,
         ConstantInt Int64Ty (int (m_memorySize st)), ConstantInt Int1Ty 0] [],
      Alloca Int8Ty ''dataptr'',
      GetElementPtr True Int8Ty (Reg PtrTy ''memory'')
        [ConstantInt Int32Ty 0, ConstantInt Int32Ty (int (m_memorySize st div 2))] ''initial_ptr'',
      Store (Reg PtrTy ''initial_ptr'') (Reg PtrTy ''dataptr'')]"
    unfolding prepare_blocks nth_append_length by simp
  obtain rest where rest:
    "bb_instrs (m_blocks (generateIR source (prepare st)) ! length (m_blocks st))
       = bb_instrs (m_blocks (prepare st) ! length (m_blocks st)) @ rest"
    using entry_block_generateIR[of st source] by (auto simp add: prefix_def)
  have run: "exec_instrs (bb_instrs (m_blocks (generateIR source (prepare st)) ! length (m_blocks st)))
        (start input) = Ill_Formed"
    unfolding rest code by (rule exec_entry_code)
  have bad: "\<not> instr_ok (BitCast (Reg PtrTy ''memory'') Int8Ty [])"
    "\<not> instr_ok (Call (Func ''llvm.memset.p0.i8'' VoidTy [PtrTy, Int8Ty, Int8Ty, Int1Ty])
        [Reg Int8Ty [], ConstantInt Int8Ty 0,
         ConstantInt Int64Ty (int (m_memorySize st)), ConstantInt Int1Ty 0] [])"
    "\<not> instr_ok (GetElementPtr True Int8Ty (Reg PtrTy ''memory'')
        [ConstantInt Int32Ty 0, ConstantInt Int32Ty (int (m_memorySize st div 2))] ''initial_ptr'')"
    by (simp_all add: bitcast_ok_def getIndexedType_def)
  have rej: "(\<forall>x. broken x \<longrightarrow> verifyModule be x) \<and> checkBrackets source = Passed \<longrightarrow>
        compile be source outputFile enableJIT st
          = Some (False, reportError GeneratedIRInvalid (generateIR source (prepare st)))"
    using compile_rejects[of be source outputFile enableJIT st] by blast
  from code prepare_fields(1)[of st] entry_block_generateIR[of st source] bad
    pointer_into_byte[of "''initial_ptr''"] run broken_generateIR[of source st] rej
  show ?thesis
    by (intro conjI allI)
qed

theorem initialization_not_well_formed_witness:
  "map_option fst
     (compile \<lparr>verifyModule = broken, optimizeModule = (\<lambda>st. st),
               executeJIT = (\<lambda>st. st), emitObjectFile = (\<lambda>f st. st)\<rparr>
        [] ''a.out'' False (BrainfuckCompiler 30000)) = Some False
   \<and> exec_instrs (bb_instrs (m_blocks (generateIR [] (prepare (BrainfuckCompiler 30000))) ! 0))
        (start []) = Ill_Formed"
proof -
  let ?be = "\<lparr>verifyModule = broken, optimizeModule = (\<lambda>st. st),
               executeJIT = (\<lambda>st. st), emitObjectFile = (\<lambda>f st. st)\<rparr>"
  have v: "\<forall>x. broken x \<longrightarrow> verifyModule ?be x" by simp
  have p: "checkBrackets [] = Passed" by (simp add: checkBrackets_def)
  have l: "length (m_blocks (BrainfuckCompiler 30000)) = 0" by (simp add: BrainfuckCompiler_def)
  show ?thesis
    using initialization_not_well_formed[of "BrainfuckCompiler 30000" "[]" "[]" ?be "''a.out''" False]
      v p
    unfolding l by simp
qed


end
